theory Spec2Isabelle
  imports Main
begin

section \<open>Errors\<close>

text \<open>
  The error codes of \<^verbatim>\<open>PayinErrorCode\<close> that the payer API, the payer processor and
  the payment-method model name. \<^verbatim>\<open>PAYER_CREATE_PAYER_ALREADY_EXIST\<close> is named only
  in the commented-out raise of \<^verbatim>\<open>has_existing_payer\<close>.
\<close>

datatype PayinErrorCode =
    PAYER_CREATE_INVALID_DATA
  | PAYER_CREATE_PAYER_ALREADY_EXIST
  | PAYER_CREATE_STRIPE_ERROR
  | PAYER_READ_DB_ERROR
  | PAYER_READ_INVALID_DATA
  | PAYER_READ_NOT_FOUND
  | PAYER_READ_STRIPE_ERROR_NOT_FOUND
  | PAYER_UPDATE_STRIPE_ERROR
  | PAYER_UPDATE_DB_ERROR_INVALID_DATA
  | PAYMENT_METHOD_GET_NOT_FOUND
  | PAYMENT_METHOD_GET_INVALID_PAYMENT_METHOD_TYPE

text \<open>
  What the database driver can raise: \<^verbatim>\<open>asyncpg.DataError\<close>, the one exception the
  processor catches, and any other driver exception (lost connection, timeout).
\<close>

datatype driver_error = DataError | OtherDriverError

text \<open>
  Every exception of the modelled code. The domain errors carry
  \<^verbatim>\<open>error_code\<close> and \<^verbatim>\<open>retryable\<close>; \<^verbatim>\<open>PaymentException\<close> carries the HTTP
  status, the code, the message and \<^verbatim>\<open>retryable\<close>.
\<close>

datatype exn =
    PayerCreationError PayinErrorCode bool
  | PayerReadError PayinErrorCode bool
  | PayerUpdateError PayinErrorCode bool
  | PaymentMethodReadError PayinErrorCode bool
  | PaymentException nat PayinErrorCode string bool
  | DbError driver_error
  | StripeError
  | ValueError
  | UnboundLocalError

section \<open>Python's int and str on strings\<close>

text \<open>
  \<^verbatim>\<open>int(s)\<close> for a string: surrounding whitespace is dropped, one sign is allowed,
  then decimal digits, where single underscores may stand between digits. Characters
  are code points below 256 (Isabelle's \<open>char\<close>); in that range \<^verbatim>\<open>int\<close> skips the
  blanks 9 to 13 and 32, and 133 and 160, which it reads as blanks (the separators 28
  to 31 are not skipped), and the decimal digits are 0 to 9. The bound that later
  versions of Python put on the number of digits is not part of the model.
  \<open>None\<close> stands for \<^verbatim>\<open>ValueError\<close>.
\<close>

definition is_space :: "char \<Rightarrow> bool" where
  "is_space c = (of_char c \<in> set [9, 10, 11, 12, 13, 32, 133, 160 :: nat])"

definition is_digit :: "char \<Rightarrow> bool" where
  "is_digit c = (48 \<le> (of_char c :: nat) \<and> (of_char c :: nat) \<le> 57)"

definition digit_val :: "char \<Rightarrow> nat" where
  "digit_val c = of_char c - 48"

definition py_strip :: "string \<Rightarrow> string" where
  "py_strip s = rev (dropWhile is_space (rev (dropWhile is_space s)))"

fun py_digits :: "nat \<Rightarrow> string \<Rightarrow> nat option" where
  "py_digits acc [] = Some acc"
| "py_digits acc (c # cs) =
     (if is_digit c then py_digits (10 * acc + digit_val c) cs
      else if c = CHR ''_'' \<and> cs \<noteq> [] \<and> is_digit (hd cs) then py_digits acc cs
      else None)"

definition py_nat :: "string \<Rightarrow> nat option" where
  "py_nat s = (case s of [] \<Rightarrow> None
               | c # cs \<Rightarrow> if is_digit c then py_digits (digit_val c) cs else None)"

definition py_int :: "string \<Rightarrow> int option" where
  "py_int s =
     (case py_strip s of
        [] \<Rightarrow> None
      | c # cs \<Rightarrow>
          if c = CHR ''-'' then map_option (\<lambda>n. - int n) (py_nat cs)
          else if c = CHR ''+'' then map_option int (py_nat cs)
          else map_option int (py_nat (c # cs)))"

text \<open>\<^verbatim>\<open>str(n)\<close> for an integer: the decimal digits, after a minus sign when negative.\<close>

fun digits_of_nat :: "nat \<Rightarrow> string" where
  "digits_of_nat n =
     (if n < 10 then [char_of (48 + n)]
      else digits_of_nat (n div 10) @ [char_of (48 + n mod 10)])"

declare digits_of_nat.simps [simp del]

definition py_str :: "int \<Rightarrow> string" where
  "py_str i = (if i < 0 then CHR ''-'' # digits_of_nat (nat (- i)) else digits_of_nat (nat i))"

text \<open>Truthiness of an optional string: \<^verbatim>\<open>None\<close> and the empty string are false.\<close>

definition truthy :: "string option \<Rightarrow> bool" where
  "truthy x = (case x of None \<Rightarrow> False | Some s \<Rightarrow> s \<noteq> [])"

section \<open>Entities\<close>

text \<open>
  The rows of the three payer tables, with the columns the processor writes and reads
  (\<^verbatim>\<open>InsertPayerInput\<close>, \<^verbatim>\<open>InsertPgpCustomerInput\<close>, \<^verbatim>\<open>InsertStripeCustomerInput\<close>).
  Field names carry the table's prefix, since several tables share column names.
\<close>

record PayerDbEntity =
  p_id :: string
  p_payer_type :: string
  p_dd_payer_id :: string
  p_legacy_stripe_customer_id :: string
  p_country :: string
  p_description :: "string option"

record PgpCustomerDbEntity =
  pc_id :: string
  pc_payer_id :: string
  pc_pgp_code :: string
  pc_pgp_resource_id :: string
  pc_default_payment_method_id :: "string option"

record StripeCustomerDbEntity =
  sc_id :: int
  sc_stripe_id :: string
  sc_country_shortname :: string
  sc_owner_type :: string
  sc_owner_id :: int
  sc_default_card :: "string option"

record InsertStripeCustomerInput =
  isc_stripe_id :: string
  isc_country_shortname :: string
  isc_owner_type :: string
  isc_owner_id :: int
  isc_default_card :: "string option"

text \<open>\<^verbatim>\<open>PgpPaymentMethodDbEntity\<close> of payment_method_repo.py; timestamps are numbers.\<close>

record PgpPaymentMethodDbEntity =
  pm_id :: string
  pm_pgp_code :: string
  pm_pgp_resource_id :: string
  pm_payer_id :: "string option"
  pm_pgp_card_id :: "string option"
  pm_legacy_consumer_id :: "string option"
  pm_object :: "string option"
  pm_type :: "string option"
  pm_created_at :: "nat option"
  pm_updated_at :: "nat option"
  pm_deleted_at :: "nat option"
  pm_attached_at :: "nat option"
  pm_detached_at :: "nat option"
  pm_payment_method_id :: "string option"

text \<open>
  \<^verbatim>\<open>StripeCardDbEntity\<close> of payment_method_repo.py, with the columns that
  \<^verbatim>\<open>RawPaymentMethod\<close> reads.
\<close>

record StripeCardDbEntity =
  card_id :: int
  card_stripe_id :: string
  card_fingerprint :: string
  card_last4 :: string
  card_dynamic_last4 :: string
  card_exp_month :: string
  card_exp_year :: string
  card_type :: string
  card_country_of_origin :: "string option"
  card_created_at :: "nat option"
  card_removed_at :: "nat option"
  card_active :: bool
  card_consumer_id :: "int option"
  card_tokenization_method :: "string option"

text \<open>
  \<^verbatim>\<open>RawPayer\<close>: the aggregate of optional entity snapshots, with the three fields the
  processor passes to its constructor and assigns to.
\<close>

record RawPayer =
  payer_entity :: "PayerDbEntity option"
  pgp_customer_entity :: "PgpCustomerDbEntity option"
  stripe_customer_entity :: "StripeCustomerDbEntity option"

record RawPaymentMethod =
  pgp_payment_method_entity :: "PgpPaymentMethodDbEntity option"
  stripe_card_entity :: "StripeCardDbEntity option"

section \<open>RawPaymentMethod\<close>

text \<open>
  \<^verbatim>\<open>RawPaymentMethod.pgp_payment_method_id\<close>: the local variable is assigned in the
  \<^verbatim>\<open>if\<close> and in the \<^verbatim>\<open>elif\<close> branch only; with neither entity the
  \<^verbatim>\<open>return\<close> reads an unbound local.
\<close>

definition pgp_payment_method_id :: "RawPaymentMethod \<Rightarrow> exn + string" where
  "pgp_payment_method_id self =
     (case pgp_payment_method_entity self of
        Some e \<Rightarrow> Inr (pm_pgp_resource_id e)
      | None \<Rightarrow>
          (case stripe_card_entity self of
             Some c \<Rightarrow> Inr (card_stripe_id c)
           | None \<Rightarrow> Inl UnboundLocalError))"

section \<open>The world: tables, gateway, objects\<close>

text \<open>
  Every call that leaves the process is recorded: a read or a write of the ledger, or a
  call of the gateway, each with the name of the operation.
\<close>

datatype call = DbRead string | DbWrite string | GatewayCall string

datatype gw_reply = GwOk string | GwFail

text \<open>
  The state the code runs against. The tables are lists of rows in insertion order.
  \<open>db_faults\<close> is the environment's schedule for the coming ledger calls: \<open>Some e\<close>
  makes the next call raise \<open>e\<close> without effect, \<open>None\<close> and the empty schedule let it
  run. \<open>gw_script\<close> is the schedule of the gateway's replies; an exhausted script is a
  gateway that cannot be reached. \<open>objs\<close> is the store of \<^verbatim>\<open>RawPayer\<close> objects: a
  reference is an index into it, the constructor appends, an attribute assignment
  updates in place.
\<close>

record world =
  payers :: "PayerDbEntity list"
  pgp_customers :: "PgpCustomerDbEntity list"
  stripe_customers :: "StripeCustomerDbEntity list"
  pgp_payment_methods :: "PgpPaymentMethodDbEntity list"
  db_faults :: "driver_error option list"
  gw_script :: "gw_reply list"
  calls :: "call list"
  uuid_counter :: nat
  next_serial :: int
  objs :: "RawPayer list"

type_synonym 'a io = "world \<Rightarrow> (exn + 'a) \<times> world"

definition ret :: "'a \<Rightarrow> 'a io" where
  "ret x st = (Inr x, st)"

definition raise :: "exn \<Rightarrow> 'a io" where
  "raise e st = (Inl e, st)"

definition bind :: "'a io \<Rightarrow> ('a \<Rightarrow> 'b io) \<Rightarrow> 'b io" where
  "bind m f st = (case m st of (Inl e, st') \<Rightarrow> (Inl e, st') | (Inr x, st') \<Rightarrow> f x st')"

text \<open>\<^verbatim>\<open>try: m except DataError: h\<close>\<close>

definition except_DataError :: "'a io \<Rightarrow> 'a io \<Rightarrow> 'a io" where
  "except_DataError m h st =
     (case m st of (Inl (DbError DataError), st') \<Rightarrow> h st' | r \<Rightarrow> r)"

text \<open>\<^verbatim>\<open>try: m except Exception: h\<close>\<close>

definition except_Exception :: "'a io \<Rightarrow> 'a io \<Rightarrow> 'a io" where
  "except_Exception m h st = (case m st of (Inl e, st') \<Rightarrow> h st' | r \<Rightarrow> r)"

text \<open>The constructor \<^verbatim>\<open>RawPayer(...)\<close>, attribute reads and the two attribute assignments.\<close>

definition new_RawPayer :: "RawPayer \<Rightarrow> nat io" where
  "new_RawPayer v st = (Inr (length (objs st)), st\<lparr>objs := objs st @ [v]\<rparr>)"

definition read_RawPayer :: "nat \<Rightarrow> RawPayer io" where
  "read_RawPayer a st = (Inr (objs st ! a), st)"

definition assign_pgp_customer_entity :: "nat \<Rightarrow> PgpCustomerDbEntity option \<Rightarrow> unit io" where
  "assign_pgp_customer_entity a v st =
     (Inr (), st\<lparr>objs := (objs st)[a := (objs st ! a)\<lparr>pgp_customer_entity := v\<rparr>]\<rparr>)"

definition assign_stripe_customer_entity ::
    "nat \<Rightarrow> StripeCustomerDbEntity option \<Rightarrow> unit io" where
  "assign_stripe_customer_entity a v st =
     (Inr (), st\<lparr>objs := (objs st)[a := (objs st ! a)\<lparr>stripe_customer_entity := v\<rparr>]\<rparr>)"

section \<open>Constants of the missing type modules\<close>

text \<open>
  Modelled from the spec: \<^verbatim>\<open>PayerIdType\<close> (app/payin/core/types.py) is not under src/.
  Its values are the four id-types of the spec's section 4.4, three of which the docstring
  of \<^verbatim>\<open>get_payer_impl\<close> lists as well.
\<close>

definition DD_PAYMENT_PAYER_ID :: string where "DD_PAYMENT_PAYER_ID = ''dd_payer_id''"
definition DD_CONSUMER_ID :: string where "DD_CONSUMER_ID = ''dd_consumer_id''"
definition STRIPE_CUSTOMER_ID :: string where "STRIPE_CUSTOMER_ID = ''stripe_customer_id''"
definition STRIPE_CUSTOMER_SERIAL_ID :: string where
  "STRIPE_CUSTOMER_SERIAL_ID = ''stripe_customer_serial_id''"

text \<open>
  Modelled from the spec: \<^verbatim>\<open>PayerType\<close> (app/payin/core/payer/types.py) is not under
  src/. The API's docstring gives the value "marketplace"; the enumeration is taken as a
  string enumeration, so that a member equals its value.
\<close>

definition MARKETPLACE :: string where "MARKETPLACE = ''marketplace''"

text \<open>\<^verbatim>\<open>PaymentProvider.STRIPE.value\<close>, which the code's comment gives as "stripe".\<close>

definition STRIPE :: string where "STRIPE = ''stripe''"

text \<open>
  Modelled from the spec: \<^verbatim>\<open>generate_object_uuid\<close> (app/commons/utils/uuid.py) is not
  under src/. A fresh identifier is the prefix and the value of a counter.
\<close>

datatype ResourceUuidPrefix = PAYER | PGP_CUSTOMER

definition prefix_str :: "ResourceUuidPrefix \<Rightarrow> string" where
  "prefix_str p = (case p of PAYER \<Rightarrow> ''pay_'' | PGP_CUSTOMER \<Rightarrow> ''pgpcus_'')"

definition generate_object_uuid :: "ResourceUuidPrefix \<Rightarrow> string io" where
  "generate_object_uuid p st =
     (Inr (prefix_str p @ digits_of_nat (uuid_counter st)),
      st\<lparr>uuid_counter := uuid_counter st + 1\<rparr>)"

section \<open>The payer repository\<close>

text \<open>
  Modelled from the spec: \<^verbatim>\<open>PayerRepository\<close> (app/payin/repository/payer_repo.py) is
  not under src/. By the spec's section 4.1 each operation is one call on one database:
  an insert adds the row and returns it, an update-by-id changes the rows of that id
  and returns the row, a get returns the first matching row or nothing, and
  \<^verbatim>\<open>insert_payer_and_pgp_customer\<close> is one transaction over both inserts. A call
  that raises has no effect on the tables. No table has a uniqueness constraint beyond
  what the processor checks.
\<close>

definition next_fault :: "world \<Rightarrow> driver_error option" where
  "next_fault st = (case db_faults st of Some e # rest \<Rightarrow> Some e | _ \<Rightarrow> None)"

definition db_call :: "call \<Rightarrow> (world \<Rightarrow> 'a \<times> world) \<Rightarrow> 'a io" where
  "db_call ev act st =
     (let st1 = st\<lparr>calls := calls st @ [ev], db_faults := tl (db_faults st)\<rparr> in
      case next_fault st of
        Some e \<Rightarrow> (Inl (DbError e), st1)
      | None \<Rightarrow> (case act st1 of (x, st2) \<Rightarrow> (Inr x, st2)))"

record GetPayerByIdInput =
  gi_id :: "string option"
  gi_dd_payer_id :: "string option"
  gi_legacy_stripe_customer_id :: "string option"

definition by_id :: "string \<Rightarrow> GetPayerByIdInput" where
  "by_id v = \<lparr>gi_id = Some v, gi_dd_payer_id = None, gi_legacy_stripe_customer_id = None\<rparr>"

definition by_dd_payer_id :: "string \<Rightarrow> GetPayerByIdInput" where
  "by_dd_payer_id v =
     \<lparr>gi_id = None, gi_dd_payer_id = Some v, gi_legacy_stripe_customer_id = None\<rparr>"

definition by_legacy_stripe_customer_id :: "string \<Rightarrow> GetPayerByIdInput" where
  "by_legacy_stripe_customer_id v =
     \<lparr>gi_id = None, gi_dd_payer_id = None, gi_legacy_stripe_customer_id = Some v\<rparr>"

definition payer_matches :: "GetPayerByIdInput \<Rightarrow> PayerDbEntity \<Rightarrow> bool" where
  "payer_matches q p =
     ((case gi_id q of None \<Rightarrow> True | Some v \<Rightarrow> p_id p = v) \<and>
      (case gi_dd_payer_id q of None \<Rightarrow> True | Some v \<Rightarrow> p_dd_payer_id p = v) \<and>
      (case gi_legacy_stripe_customer_id q of
         None \<Rightarrow> True | Some v \<Rightarrow> p_legacy_stripe_customer_id p = v))"

text \<open>
  \<^verbatim>\<open>GetStripeCustomerInput\<close>: by the gateway's id, or by the serial id, which the
  caller gives as a string.
\<close>

datatype GetStripeCustomerInput = By_stripe_id string | By_serial_id string

definition stripe_customer_matches ::
    "GetStripeCustomerInput \<Rightarrow> StripeCustomerDbEntity \<Rightarrow> bool" where
  "stripe_customer_matches q c =
     (case q of By_stripe_id v \<Rightarrow> sc_stripe_id c = v
              | By_serial_id v \<Rightarrow> py_int v = Some (sc_id c))"

definition get_payer_by_dd_payer_id_and_payer_type ::
    "string \<Rightarrow> string \<Rightarrow> PayerDbEntity option io" where
  "get_payer_by_dd_payer_id_and_payer_type dd_payer_id payer_type =
     db_call (DbRead ''get_payer_by_dd_payer_id_and_payer_type'')
       (\<lambda>st. (find (\<lambda>p. p_dd_payer_id p = dd_payer_id \<and> p_payer_type p = payer_type)
                 (payers st), st))"

definition get_payer_by_id :: "GetPayerByIdInput \<Rightarrow> PayerDbEntity option io" where
  "get_payer_by_id q =
     db_call (DbRead ''get_payer_by_id'') (\<lambda>st. (find (payer_matches q) (payers st), st))"

definition get_payer_and_pgp_customer_by_id ::
    "GetPayerByIdInput \<Rightarrow> (PayerDbEntity option \<times> PgpCustomerDbEntity option) io" where
  "get_payer_and_pgp_customer_by_id q =
     db_call (DbRead ''get_payer_and_pgp_customer_by_id'')
       (\<lambda>st. ((case find (payer_matches q) (payers st) of
                 None \<Rightarrow> (None, None)
               | Some p \<Rightarrow> (Some p, find (\<lambda>c. pc_payer_id c = p_id p) (pgp_customers st))),
              st))"

definition insert_payer :: "PayerDbEntity \<Rightarrow> PayerDbEntity io" where
  "insert_payer request =
     db_call (DbWrite ''insert_payer'')
       (\<lambda>st. (request, st\<lparr>payers := payers st @ [request]\<rparr>))"

definition insert_payer_and_pgp_customer ::
    "PayerDbEntity \<Rightarrow> PgpCustomerDbEntity \<Rightarrow> (PayerDbEntity \<times> PgpCustomerDbEntity) io" where
  "insert_payer_and_pgp_customer payer_input pgp_customer_input =
     db_call (DbWrite ''insert_payer_and_pgp_customer'')
       (\<lambda>st. ((payer_input, pgp_customer_input),
              st\<lparr>payers := payers st @ [payer_input],
                 pgp_customers := pgp_customers st @ [pgp_customer_input]\<rparr>))"

definition get_stripe_customer ::
    "GetStripeCustomerInput \<Rightarrow> StripeCustomerDbEntity option io" where
  "get_stripe_customer q =
     db_call (DbRead ''get_stripe_customer'')
       (\<lambda>st. (find (stripe_customer_matches q) (stripe_customers st), st))"

definition insert_stripe_customer ::
    "InsertStripeCustomerInput \<Rightarrow> StripeCustomerDbEntity io" where
  "insert_stripe_customer request =
     db_call (DbWrite ''insert_stripe_customer'')
       (\<lambda>st. let row = \<lparr>sc_id = next_serial st,
                         sc_stripe_id = isc_stripe_id request,
                         sc_country_shortname = isc_country_shortname request,
                         sc_owner_type = isc_owner_type request,
                         sc_owner_id = isc_owner_id request,
                         sc_default_card = isc_default_card request\<rparr>
             in (row, st\<lparr>stripe_customers := stripe_customers st @ [row],
                          next_serial := next_serial st + 1\<rparr>))"

definition update_pgp_customer :: "string \<Rightarrow> string \<Rightarrow> PgpCustomerDbEntity option io" where
  "update_pgp_customer default_payment_method_id where_id =
     db_call (DbWrite ''update_pgp_customer'')
       (\<lambda>st. let tbl = map (\<lambda>c. if pc_id c = where_id
                                 then c\<lparr>pc_default_payment_method_id :=
                                          Some default_payment_method_id\<rparr>
                                 else c) (pgp_customers st)
             in (find (\<lambda>c. pc_id c = where_id) tbl, st\<lparr>pgp_customers := tbl\<rparr>))"

definition update_stripe_customer ::
    "string \<Rightarrow> int \<Rightarrow> StripeCustomerDbEntity option io" where
  "update_stripe_customer default_card where_id =
     db_call (DbWrite ''update_stripe_customer'')
       (\<lambda>st. let tbl = map (\<lambda>c. if sc_id c = where_id
                                 then c\<lparr>sc_default_card := Some default_card\<rparr>
                                 else c) (stripe_customers st)
             in (find (\<lambda>c. sc_id c = where_id) tbl, st\<lparr>stripe_customers := tbl\<rparr>))"

section \<open>The payment-method repository\<close>





section \<open>The gateway\<close>

text \<open>
  The Stripe client of the application context. \<^verbatim>\<open>CountryCode\<close>
  (app/commons/types.py) is not under src/: \<open>cc\<close> says which strings are members of
  the enumeration, and conversion of any other string raises \<^verbatim>\<open>ValueError\<close>.
\<close>

definition CountryCode :: "(string \<Rightarrow> bool) \<Rightarrow> string \<Rightarrow> string io" where
  "CountryCode cc country = (if cc country then ret country else raise ValueError)"

definition gateway_call :: "string \<Rightarrow> string io" where
  "gateway_call name st =
     (let st1 = st\<lparr>calls := calls st @ [GatewayCall name]\<rparr> in
      case gw_script st1 of
        GwOk v # rest \<Rightarrow> (Inr v, st1\<lparr>gw_script := rest\<rparr>)
      | GwFail # rest \<Rightarrow> (Inl StripeError, st1\<lparr>gw_script := rest\<rparr>)
      | [] \<Rightarrow> (Inl StripeError, st1))"

definition stripe_create_customer :: "string \<Rightarrow> string \<Rightarrow> string \<Rightarrow> string io" where
  "stripe_create_customer country email description = gateway_call ''create_customer''"

definition stripe_update_customer :: "string \<Rightarrow> string \<Rightarrow> string \<Rightarrow> string io" where
  "stripe_update_customer country sid default_payment_method =
     gateway_call ''update_customer''"

section \<open>The payer processor\<close>

subsection \<open>PayerOps: the current schema\<close>

text \<open>
  The handler of \<^verbatim>\<open>except DataError\<close> in both \<^verbatim>\<open>create_payer_raw_objects\<close>: its
  log message reads \<^verbatim>\<open>payer_entity.id\<close> before it raises. \<^verbatim>\<open>payer_entity\<close> is
  only annotated at the head of the \<^verbatim>\<open>try\<close> block, so it is bound only once an
  insert has returned.
\<close>

definition on_DataError_in_create :: "PayerDbEntity option \<Rightarrow> 'a io" where
  "on_DataError_in_create bound_payer_entity =
     (case bound_payer_entity of
        None \<Rightarrow> raise UnboundLocalError
      | Some p \<Rightarrow> raise (PayerCreationError PAYER_CREATE_INVALID_DATA True))"

definition PayerOps_create_payer_raw_objects ::
    "string \<Rightarrow> string \<Rightarrow> string \<Rightarrow> string \<Rightarrow> string \<Rightarrow> string option \<Rightarrow> string option
      \<Rightarrow> nat io" where
  "PayerOps_create_payer_raw_objects dd_payer_id payer_type country pgp_customer_id pgp_code
       description default_payment_method_id =
     bind (except_DataError
             (bind (generate_object_uuid PAYER) (\<lambda>payer_id.
              bind (generate_object_uuid PGP_CUSTOMER) (\<lambda>pgp_customer_uuid.
              insert_payer_and_pgp_customer
                \<lparr>p_id = payer_id, p_payer_type = payer_type, p_dd_payer_id = dd_payer_id,
                 p_legacy_stripe_customer_id = pgp_customer_id, p_country = country,
                 p_description = description\<rparr>
                \<lparr>pc_id = pgp_customer_uuid, pc_payer_id = payer_id, pc_pgp_code = pgp_code,
                 pc_pgp_resource_id = pgp_customer_id,
                 pc_default_payment_method_id = default_payment_method_id\<rparr>)))
             (on_DataError_in_create None))
       (\<lambda>(payer_entity, pgp_customer_entity).
          new_RawPayer \<lparr>payer_entity = Some payer_entity,
                        pgp_customer_entity = Some pgp_customer_entity,
                        stripe_customer_entity = None\<rparr>)"

definition PayerOps_get_payer_raw_objects ::
    "string \<Rightarrow> string option \<Rightarrow> string option \<Rightarrow> nat io" where
  "PayerOps_get_payer_raw_objects payer_id payer_id_type payer_type =
     bind (except_DataError
             (get_payer_and_pgp_customer_by_id
                (if payer_id_type = Some DD_CONSUMER_ID then by_dd_payer_id payer_id
                 else by_id payer_id))
             (raise (PayerReadError PAYER_READ_DB_ERROR False)))
       (\<lambda>(payer_entity, pgp_cus_entity).
          if \<not> (payer_entity \<noteq> None \<and> pgp_cus_entity \<noteq> None)
          then raise (PayerReadError PAYER_READ_NOT_FOUND False)
          else new_RawPayer \<lparr>payer_entity = payer_entity,
                             pgp_customer_entity = pgp_cus_entity,
                             stripe_customer_entity = None\<rparr>)"

definition PayerOps_update_payer_default_payment_method ::
    "nat \<Rightarrow> string \<Rightarrow> string \<Rightarrow> string option \<Rightarrow> string option \<Rightarrow> nat io" where
  "PayerOps_update_payer_default_payment_method raw_payer pgp_default_payment_method_id
       payer_id payer_type payer_id_type =
     bind (read_RawPayer raw_payer) (\<lambda>rp.
       case pgp_customer_entity rp of
         Some pc \<Rightarrow>
           bind (update_pgp_customer pgp_default_payment_method_id (pc_id pc)) (\<lambda>r.
           bind (assign_pgp_customer_entity raw_payer r) (\<lambda>_. ret raw_payer))
       | None \<Rightarrow>
           (case stripe_customer_entity rp of
              Some sc \<Rightarrow>
                bind (update_stripe_customer pgp_default_payment_method_id (sc_id sc)) (\<lambda>r.
                bind (assign_stripe_customer_entity raw_payer r) (\<lambda>_. ret raw_payer))
            | None \<Rightarrow> ret raw_payer))"

subsection \<open>LegacyPayerOps: the legacy schema\<close>

text \<open>
  The one \<^verbatim>\<open>try\<close> block of the source is written as two blocks with the same
  handler, the first up to the assignment of \<^verbatim>\<open>payer_entity\<close>: the handler raises,
  so control never comes back into the block. \<^verbatim>\<open>int(dd_payer_id)\<close> is evaluated
  when the input of \<^verbatim>\<open>insert_stripe_customer\<close> is built, and its
  \<^verbatim>\<open>ValueError\<close> is not caught.
\<close>

definition LegacyPayerOps_create_payer_raw_objects ::
    "string \<Rightarrow> string \<Rightarrow> string \<Rightarrow> string \<Rightarrow> string \<Rightarrow> string option \<Rightarrow> string option
      \<Rightarrow> nat io" where
  "LegacyPayerOps_create_payer_raw_objects dd_payer_id payer_type country pgp_customer_id
       pgp_code description default_payment_method_id =
     bind (except_DataError
             (bind (generate_object_uuid PAYER) (\<lambda>payer_id.
              insert_payer
                \<lparr>p_id = payer_id, p_payer_type = payer_type, p_dd_payer_id = dd_payer_id,
                 p_legacy_stripe_customer_id = pgp_customer_id, p_country = country,
                 p_description = description\<rparr>))
             (on_DataError_in_create None))
       (\<lambda>payer_entity.
     bind (except_DataError
             (bind (get_stripe_customer (By_stripe_id pgp_customer_id)) (\<lambda>found.
                case found of
                  Some sc \<Rightarrow> ret sc
                | None \<Rightarrow>
                    (case py_int dd_payer_id of
                       None \<Rightarrow> raise ValueError
                     | Some owner_id \<Rightarrow>
                         insert_stripe_customer
                           \<lparr>isc_stripe_id = pgp_customer_id,
                            isc_country_shortname = country,
                            isc_owner_type = payer_type,
                            isc_owner_id = owner_id,
                            isc_default_card = default_payment_method_id\<rparr>)))
             (on_DataError_in_create (Some payer_entity)))
       (\<lambda>stripe_customer_entity.
          new_RawPayer \<lparr>payer_entity = Some payer_entity,
                        pgp_customer_entity = None,
                        stripe_customer_entity = Some stripe_customer_entity\<rparr>))"

definition LegacyPayerOps_get_payer_raw_objects ::
    "string \<Rightarrow> string option \<Rightarrow> string option \<Rightarrow> nat io" where
  "LegacyPayerOps_get_payer_raw_objects payer_id payer_id_type payer_type =
     bind (except_DataError
             (if truthy payer_type \<and> payer_type \<noteq> Some MARKETPLACE
              then
                bind (get_stripe_customer
                        (if payer_id_type = Some STRIPE_CUSTOMER_ID then By_stripe_id payer_id
                         else By_serial_id payer_id)) (\<lambda>stripe_cus_entity.
                bind (get_payer_by_id (by_legacy_stripe_customer_id payer_id))
                  (\<lambda>payer_entity.
                ret (payer_entity, stripe_cus_entity, stripe_cus_entity \<noteq> None)))
              else ret (None, None, False))
             (raise (PayerReadError PAYER_READ_DB_ERROR False)))
       (\<lambda>(payer_entity, stripe_cus_entity, is_found).
          if \<not> is_found then raise (PayerReadError PAYER_READ_NOT_FOUND False)
          else new_RawPayer \<lparr>payer_entity = payer_entity,
                             pgp_customer_entity = None,
                             stripe_customer_entity = stripe_cus_entity\<rparr>)"

definition LegacyPayerOps_update_payer_default_payment_method ::
    "nat \<Rightarrow> string \<Rightarrow> string \<Rightarrow> string option \<Rightarrow> string option \<Rightarrow> nat io" where
  "LegacyPayerOps_update_payer_default_payment_method raw_payer
       pgp_default_payment_method_id payer_id payer_type payer_id_type =
     bind (read_RawPayer raw_payer) (\<lambda>rp.
       case stripe_customer_entity rp of
         Some sc \<Rightarrow>
           bind (update_stripe_customer pgp_default_payment_method_id (sc_id sc)) (\<lambda>r.
           bind (assign_stripe_customer_entity raw_payer r) (\<lambda>_. ret raw_payer))
       | None \<Rightarrow> ret raw_payer)"

subsection \<open>PayerClient\<close>

text \<open>The two implementations of \<^verbatim>\<open>PayerOpsInterface\<close> and the dispatch on them.\<close>

datatype PayerOpsInterface = PayerOps | LegacyPayerOps

definition interface_create_payer_raw_objects ::
    "PayerOpsInterface \<Rightarrow> string \<Rightarrow> string \<Rightarrow> string \<Rightarrow> string \<Rightarrow> string \<Rightarrow> string option
      \<Rightarrow> string option \<Rightarrow> nat io" where
  "interface_create_payer_raw_objects payer_interface =
     (case payer_interface of
        PayerOps \<Rightarrow> PayerOps_create_payer_raw_objects
      | LegacyPayerOps \<Rightarrow> LegacyPayerOps_create_payer_raw_objects)"

definition interface_get_payer_raw_objects ::
    "PayerOpsInterface \<Rightarrow> string \<Rightarrow> string option \<Rightarrow> string option \<Rightarrow> nat io" where
  "interface_get_payer_raw_objects payer_interface =
     (case payer_interface of
        PayerOps \<Rightarrow> PayerOps_get_payer_raw_objects
      | LegacyPayerOps \<Rightarrow> LegacyPayerOps_get_payer_raw_objects)"

definition interface_update_payer_default_payment_method ::
    "PayerOpsInterface \<Rightarrow> nat \<Rightarrow> string \<Rightarrow> string \<Rightarrow> string option \<Rightarrow> string option
      \<Rightarrow> nat io" where
  "interface_update_payer_default_payment_method payer_interface =
     (case payer_interface of
        PayerOps \<Rightarrow> PayerOps_update_payer_default_payment_method
      | LegacyPayerOps \<Rightarrow> LegacyPayerOps_update_payer_default_payment_method)"

text \<open>
  \<^verbatim>\<open>PayerClient.has_existing_payer\<close>: the branch for an existing payer only logs;
  its raise is commented out in the source.
\<close>

definition has_existing_payer :: "string \<Rightarrow> string \<Rightarrow> unit io" where
  "has_existing_payer dd_payer_id payer_type =
     except_DataError
       (bind (get_payer_by_dd_payer_id_and_payer_type dd_payer_id payer_type)
          (\<lambda>exist_payer. case exist_payer of Some p \<Rightarrow> ret () | None \<Rightarrow> ret ()))
       (raise (PayerCreationError PAYER_READ_DB_ERROR True))"

definition PayerClient_create_payer_raw_objects ::
    "string \<Rightarrow> string \<Rightarrow> string \<Rightarrow> string \<Rightarrow> string \<Rightarrow> string option \<Rightarrow> string option
      \<Rightarrow> nat io" where
  "PayerClient_create_payer_raw_objects dd_payer_id payer_type country pgp_customer_id
       pgp_code description default_payment_method_id =
     interface_create_payer_raw_objects
       (if payer_type = MARKETPLACE then PayerOps else LegacyPayerOps)
       dd_payer_id payer_type country pgp_customer_id pgp_code description
       default_payment_method_id"

definition PayerClient_get_payer_raw_objects ::
    "string \<Rightarrow> string option \<Rightarrow> string option \<Rightarrow> nat io" where
  "PayerClient_get_payer_raw_objects payer_id payer_id_type payer_type =
     bind (if \<not> truthy payer_id_type
              \<or> payer_id_type \<in> set [Some DD_PAYMENT_PAYER_ID, Some DD_CONSUMER_ID]
           then ret PayerOps
           else if payer_id_type \<in> set [Some STRIPE_CUSTOMER_SERIAL_ID, Some STRIPE_CUSTOMER_ID]
           then ret LegacyPayerOps
           else raise (PayerReadError PAYER_READ_INVALID_DATA False))
       (\<lambda>payer_interface.
          interface_get_payer_raw_objects payer_interface payer_id payer_id_type payer_type)"

definition lazy_create_payer ::
    "string \<Rightarrow> string \<Rightarrow> string \<Rightarrow> string \<Rightarrow> string \<Rightarrow> string option \<Rightarrow> string option
      \<Rightarrow> nat io" where
  "lazy_create_payer dd_payer_id country pgp_customer_id pgp_code payer_type
       default_payment_method_id description =
     bind (get_payer_by_id (by_legacy_stripe_customer_id pgp_customer_id))
       (\<lambda>get_payer_entity.
          case get_payer_entity of
            Some p \<Rightarrow>
              new_RawPayer \<lparr>payer_entity = Some p, pgp_customer_entity = None,
                            stripe_customer_entity = None\<rparr>
          | None \<Rightarrow>
              PayerClient_create_payer_raw_objects dd_payer_id payer_type country
                pgp_customer_id pgp_code description default_payment_method_id)"

definition PayerClient_update_payer_default_payment_method ::
    "nat \<Rightarrow> string \<Rightarrow> string \<Rightarrow> string option \<Rightarrow> string option \<Rightarrow> string option \<Rightarrow> nat io"
    where
  "PayerClient_update_payer_default_payment_method raw_payer pgp_default_payment_method_id
       payer_id payer_type payer_id_type description =
     bind (if \<not> truthy payer_id_type
              \<or> payer_id_type \<in> set [Some DD_PAYMENT_PAYER_ID, Some DD_CONSUMER_ID]
           then ret (PayerOps, False)
           else if payer_id_type \<in> set [Some STRIPE_CUSTOMER_SERIAL_ID, Some STRIPE_CUSTOMER_ID]
           then ret (LegacyPayerOps, True)
           else raise (PayerReadError PAYER_READ_INVALID_DATA False))
       (\<lambda>(payer_interface, lazy_create).
     bind (interface_update_payer_default_payment_method payer_interface raw_payer
             pgp_default_payment_method_id payer_id payer_type payer_id_type)
       (\<lambda>updated_raw_payer.
     bind (read_RawPayer updated_raw_payer) (\<lambda>updated.
       case (if lazy_create then stripe_customer_entity updated else None) of
         Some sc \<Rightarrow>
           lazy_create_payer (py_str (sc_owner_id sc)) (sc_country_shortname sc)
             (sc_stripe_id sc) STRIPE (sc_owner_type sc)
             (Some pgp_default_payment_method_id) description
       | None \<Rightarrow> ret updated_raw_payer)))"

definition pgp_create_customer ::
    "(string \<Rightarrow> bool) \<Rightarrow> string \<Rightarrow> string \<Rightarrow> string \<Rightarrow> string io" where
  "pgp_create_customer cc country email description =
     except_Exception
       (bind (CountryCode cc country) (\<lambda>c. stripe_create_customer c email description))
       (raise (PayerCreationError PAYER_CREATE_STRIPE_ERROR False))"

definition pgp_update_customer_default_payment_method ::
    "(string \<Rightarrow> bool) \<Rightarrow> string \<Rightarrow> string \<Rightarrow> string \<Rightarrow> string io" where
  "pgp_update_customer_default_payment_method cc country pgp_customer_id
       default_payment_method_id =
     except_Exception
       (bind (CountryCode cc country) (\<lambda>input_country.
          stripe_update_customer input_country pgp_customer_id default_payment_method_id))
       (raise (PayerUpdateError PAYER_UPDATE_STRIPE_ERROR False))"

subsection \<open>The three operations\<close>

text \<open>
  \<^verbatim>\<open>RawPayer.to_payer\<close> and \<^verbatim>\<open>RawPayer.get_pgp_customer_id\<close>
  (app/payin/core/payer/model.py) are not under src/: they are the parameters
  \<open>to_payer\<close> and \<open>get_pgp_customer_id\<close>, functions of the object's fields.
  \<^verbatim>\<open>get_payment_method\<close> (app/payin/core/payment_method/processor.py) is not under
  src/ either: it is a resolution step that reads the ledger, and \<open>pm\<close> is what it
  returns or raises for its arguments.
\<close>

definition call_method :: "(RawPayer \<Rightarrow> exn + 'a) \<Rightarrow> nat \<Rightarrow> 'a io" where
  "call_method m raw_payer st = (m (objs st ! raw_payer), st)"

definition get_payment_method ::
    "(exn + PgpPaymentMethodDbEntity option \<times> StripeCardDbEntity)
      \<Rightarrow> string \<Rightarrow> string \<Rightarrow> string option \<Rightarrow> string option
      \<Rightarrow> (PgpPaymentMethodDbEntity option \<times> StripeCardDbEntity) io" where
  "get_payment_method pm payer_id payment_method_id payer_id_type payment_method_id_type st =
     (pm, st\<lparr>calls := calls st @ [DbRead ''get_payment_method'']\<rparr>)"

definition create_payer_impl ::
    "(string \<Rightarrow> bool) \<Rightarrow> (RawPayer \<Rightarrow> exn + 'p) \<Rightarrow> string \<Rightarrow> string \<Rightarrow> string \<Rightarrow> string
      \<Rightarrow> string \<Rightarrow> 'p io" where
  "create_payer_impl cc to_payer dd_payer_id payer_type email country description =
     bind (has_existing_payer dd_payer_id payer_type) (\<lambda>_.
     bind (pgp_create_customer cc country email description) (\<lambda>pgp_customer_id.
     bind (PayerClient_create_payer_raw_objects dd_payer_id payer_type country
             pgp_customer_id STRIPE (Some description) None) (\<lambda>raw_payer.
     call_method to_payer raw_payer)))"

definition get_payer_impl ::
    "(RawPayer \<Rightarrow> exn + 'p) \<Rightarrow> string \<Rightarrow> string option \<Rightarrow> string option \<Rightarrow> bool
      \<Rightarrow> 'p io" where
  "get_payer_impl to_payer payer_id payer_id_type payer_type force_update =
     bind (PayerClient_get_payer_raw_objects payer_id payer_id_type payer_type)
       (\<lambda>raw_payer. call_method to_payer raw_payer)"

definition update_payer_impl ::
    "(string \<Rightarrow> bool) \<Rightarrow> (RawPayer \<Rightarrow> exn + 'p) \<Rightarrow> (RawPayer \<Rightarrow> exn + string)
      \<Rightarrow> (exn + PgpPaymentMethodDbEntity option \<times> StripeCardDbEntity)
      \<Rightarrow> string \<Rightarrow> string \<Rightarrow> string \<Rightarrow> string option \<Rightarrow> string option
      \<Rightarrow> string option \<Rightarrow> 'p io" where
  "update_payer_impl cc to_payer get_pgp_customer_id pm payer_id default_payment_method_id
       country payer_id_type payer_type payment_method_id_type =
     bind (PayerClient_get_payer_raw_objects payer_id payer_id_type payer_type)
       (\<lambda>raw_payer.
     bind (get_payment_method pm payer_id default_payment_method_id payer_id_type
             payment_method_id_type) (\<lambda>(pm_entity, sc_entity).
     bind (call_method get_pgp_customer_id raw_payer) (\<lambda>pgp_customer_id.
     bind (pgp_update_customer_default_payment_method cc country pgp_customer_id
             (card_stripe_id sc_entity)) (\<lambda>stripe_customer.
     bind (PayerClient_update_payer_default_payment_method raw_payer
             (card_stripe_id sc_entity) payer_id payer_type payer_id_type None)
       (\<lambda>updated_raw_payer.
     call_method to_payer updated_raw_payer)))))"

section \<open>The payer API\<close>

text \<open>
  \<^verbatim>\<open>create_payer\<close> of api.py. \<^verbatim>\<open>PayerProcessor\<close> is not under src/: the processor's
  \<^verbatim>\<open>create_payer\<close> is the parameter \<open>processor_create_payer\<close>.
  \<^verbatim>\<open>payin_error_message_maps\<close> is not under src/ either: \<open>msgs\<close> is that table,
  taken to have an entry for every code.
\<close>

record CreatePayerRequest =
  req_dd_payer_id :: "string option"
  req_payer_type :: string
  req_email :: string
  req_country :: string
  req_description :: string

definition HTTP_422_UNPROCESSABLE_ENTITY :: nat where "HTTP_422_UNPROCESSABLE_ENTITY = 422"
definition HTTP_500_INTERNAL_SERVER_ERROR :: nat where "HTTP_500_INTERNAL_SERVER_ERROR = 500"

text \<open>
  \<^verbatim>\<open>except PaymentError as e\<close>: the domain errors are re-raised as a
  \<^verbatim>\<open>PaymentException\<close> with the same code and flag; any other exception passes.
\<close>

definition as_PaymentException :: "(PayinErrorCode \<Rightarrow> string) \<Rightarrow> exn \<Rightarrow> exn" where
  "as_PaymentException msgs e =
     (let wrap = (\<lambda>code retryable.
            PaymentException
              (if code = PAYER_CREATE_INVALID_DATA then HTTP_422_UNPROCESSABLE_ENTITY
               else HTTP_500_INTERNAL_SERVER_ERROR)
              code (msgs code) retryable)
      in case e of
           PayerCreationError code r \<Rightarrow> wrap code r
         | PayerReadError code r \<Rightarrow> wrap code r
         | PayerUpdateError code r \<Rightarrow> wrap code r
         | PaymentMethodReadError code r \<Rightarrow> wrap code r
         | other \<Rightarrow> other)"

definition create_payer ::
    "(PayinErrorCode \<Rightarrow> string) \<Rightarrow> (CreatePayerRequest \<Rightarrow> 'p io) \<Rightarrow> CreatePayerRequest
      \<Rightarrow> 'p io" where
  "create_payer msgs processor_create_payer req_body =
     bind (if truthy (req_dd_payer_id req_body)
           then (case py_int (the (req_dd_payer_id req_body)) of
                   Some n \<Rightarrow> ret ()
                 | None \<Rightarrow>
                     raise (PaymentException HTTP_422_UNPROCESSABLE_ENTITY
                              PAYER_CREATE_INVALID_DATA (msgs PAYER_CREATE_INVALID_DATA)
                              False))
           else ret ())
       (\<lambda>_ st. case processor_create_payer req_body st of
                 (Inl e, st') \<Rightarrow> (Inl (as_PaymentException msgs e), st')
               | r \<Rightarrow> r)"

section \<open>Notions used in the properties\<close>

text \<open>
  The strings that \<^verbatim>\<open>int\<close> accepts, as Python's documentation gives them: blanks,
  an optional sign, digits with single underscores between them, blanks.
\<close>

fun digitpart :: "string \<Rightarrow> bool" where
  "digitpart [] = False"
| "digitpart [c] = is_digit c"
| "digitpart (c # d # cs) =
     (is_digit c \<and> (if d = CHR ''_'' then digitpart cs else digitpart (d # cs)))"

definition int_literal :: "string \<Rightarrow> bool" where
  "int_literal s =
     (\<exists>ws1 sign body ws2.
        s = ws1 @ sign @ body @ ws2 \<and> list_all is_space ws1 \<and> list_all is_space ws2 \<and>
        sign \<in> {[], ''+'', ''-''} \<and> digitpart body)"

text \<open>The characters that can occur in a string that \<^verbatim>\<open>int\<close> accepts.\<close>

definition int_char :: "char \<Rightarrow> bool" where
  "int_char c = (is_digit c \<or> is_space c \<or> c = CHR ''_'' \<or> c = CHR ''+'' \<or> c = CHR ''-'')"



text \<open>How many payers of the current schema have a given dd_payer_id and payer_type.\<close>

definition payer_count :: "string \<Rightarrow> string \<Rightarrow> world \<Rightarrow> nat" where
  "payer_count dd_payer_id payer_type st =
     length (filter (\<lambda>p. p_dd_payer_id p = dd_payer_id \<and> p_payer_type p = payer_type)
               (payers st))"

text \<open>How many payers of the current schema mirror a given legacy customer.\<close>

definition mirror_count :: "string \<Rightarrow> world \<Rightarrow> nat" where
  "mirror_count stripe_id st =
     length (filter (\<lambda>p. p_legacy_stripe_customer_id p = stripe_id) (payers st))"

text \<open>
  The calls that an operation has added to the record, and the order the gateway rule
  asks for: no write of the ledger before the first call of the gateway.
\<close>

definition is_read :: "call \<Rightarrow> bool" where
  "is_read c = (case c of DbRead n \<Rightarrow> True | _ \<Rightarrow> False)"

definition is_write :: "call \<Rightarrow> bool" where
  "is_write c = (case c of DbWrite n \<Rightarrow> True | _ \<Rightarrow> False)"

definition is_gateway :: "call \<Rightarrow> bool" where
  "is_gateway c = (case c of GatewayCall n \<Rightarrow> True | _ \<Rightarrow> False)"

definition new_calls :: "world \<Rightarrow> world \<Rightarrow> call list" where
  "new_calls st st' = drop (length (calls st)) (calls st')"

definition writes_follow_gateway :: "call list \<Rightarrow> bool" where
  "writes_follow_gateway tr =
     list_all (\<lambda>c. \<not> is_write c) (takeWhile (\<lambda>c. \<not> is_gateway c) tr)"

definition same_tables :: "world \<Rightarrow> world \<Rightarrow> bool" where
  "same_tables st st' =
     (payers st' = payers st \<and> pgp_customers st' = pgp_customers st \<and>
      stripe_customers st' = stripe_customers st \<and>
      pgp_payment_methods st' = pgp_payment_methods st)"


text \<open>What \<^verbatim>\<open>update_stripe_customer\<close> does to one row.\<close>

definition set_default_card ::
    "int \<Rightarrow> string \<Rightarrow> StripeCustomerDbEntity \<Rightarrow> StripeCustomerDbEntity" where
  "set_default_card i v c = (if sc_id c = i then c\<lparr>sc_default_card := Some v\<rparr> else c)"

text \<open>Relations between the world before and after a computation, for the proofs.\<close>

definition preserves :: "(world \<Rightarrow> world \<Rightarrow> bool) \<Rightarrow> 'a io \<Rightarrow> bool" where
  "preserves R m = (\<forall>st. R st (snd (m st)))"

definition calls_extend :: "world \<Rightarrow> world \<Rightarrow> bool" where
  "calls_extend st st' = (\<exists>xs. calls st' = calls st @ xs)"

definition reads_only :: "world \<Rightarrow> world \<Rightarrow> bool" where
  "reads_only st st' =
     (same_tables st st' \<and> gw_script st' = gw_script st \<and>
      (\<exists>rs. calls st' = calls st @ rs \<and> list_all is_read rs))"

text \<open>Sample worlds: an empty ledger, and a ledger with one legacy customer only.\<close>

definition empty_world :: world where
  "empty_world =
     \<lparr>payers = [], pgp_customers = [], stripe_customers = [], pgp_payment_methods = [],
      db_faults = [], gw_script = [], calls = [], uuid_counter = 0, next_serial = 1,
      objs = []\<rparr>"

definition legacy_customer :: StripeCustomerDbEntity where
  "legacy_customer =
     \<lparr>sc_id = 7, sc_stripe_id = ''cus_1'', sc_country_shortname = ''US'',
      sc_owner_type = ''store'', sc_owner_id = 42, sc_default_card = None\<rparr>"

definition legacy_world :: world where
  "legacy_world = empty_world\<lparr>stripe_customers := [legacy_customer]\<rparr>"

text \<open>A ledger with one current-schema payer, and an object that holds its two rows.\<close>

definition current_payer :: PayerDbEntity where
  "current_payer =
     \<lparr>p_id = ''pay_a'', p_payer_type = ''marketplace'', p_dd_payer_id = ''42'',
      p_legacy_stripe_customer_id = ''cus_2'', p_country = ''US'', p_description = None\<rparr>"

definition current_pgp_customer :: PgpCustomerDbEntity where
  "current_pgp_customer =
     \<lparr>pc_id = ''pgpcus_a'', pc_payer_id = ''pay_a'', pc_pgp_code = ''stripe'',
      pc_pgp_resource_id = ''cus_2'', pc_default_payment_method_id = None\<rparr>"

definition current_world :: world where
  "current_world =
     empty_world\<lparr>payers := [current_payer], pgp_customers := [current_pgp_customer],
       objs := [\<lparr>payer_entity = Some current_payer,
                  pgp_customer_entity = Some current_pgp_customer,
                  stripe_customer_entity = None\<rparr>]\<rparr>"






definition sample_card :: StripeCardDbEntity where
  "sample_card =
     \<lparr>card_id = 3, card_stripe_id = ''card_1'', card_fingerprint = ''fp'', card_last4 = ''4242'',
      card_dynamic_last4 = ''4242'', card_exp_month = ''01'', card_exp_year = ''2030'',
      card_type = ''visa'', card_country_of_origin = None, card_created_at = None,
      card_removed_at = None, card_active = True, card_consumer_id = None,
      card_tokenization_method = None\<rparr>"

definition sample_get_pgp_customer_id :: "RawPayer \<Rightarrow> exn + string" where
  "sample_get_pgp_customer_id rp =
     (case pgp_customer_entity rp of
        Some pc \<Rightarrow> Inr (pc_pgp_resource_id pc)
      | None \<Rightarrow>
          (case stripe_customer_entity rp of
             Some sc \<Rightarrow> Inr (sc_stripe_id sc)
           | None \<Rightarrow> Inl ValueError))"

definition us_only :: "string \<Rightarrow> bool" where
  "us_only c = (c = ''US'')"

definition no_payer :: "RawPayer \<Rightarrow> exn + unit" where
  "no_payer rp = Inr ()"

definition sample_request :: "string \<Rightarrow> CreatePayerRequest" where
  "sample_request dd_payer_id =
     \<lparr>req_dd_payer_id = Some dd_payer_id, req_payer_type = ''marketplace'',
      req_email = ''a@b.c'', req_country = ''US'', req_description = ''d''\<rparr>"

section \<open>Properties of RawPaymentMethod\<close>

text \<open>
  C10: \<^verbatim>\<open>pgp_payment_method_id\<close> returns a value exactly when at least one of the two
  entities is present; with both absent the call raises \<^verbatim>\<open>UnboundLocalError\<close>, which
  is neither a value nor a domain error.
\<close>

theorem pgp_payment_method_id_total_iff:
  "((\<exists>v. pgp_payment_method_id self = Inr v) \<longleftrightarrow>
      (pgp_payment_method_entity self \<noteq> None \<or> stripe_card_entity self \<noteq> None)) \<and>
   (pgp_payment_method_entity self = None \<and> stripe_card_entity self = None \<longrightarrow>
      pgp_payment_method_id self = Inl UnboundLocalError)"
  by (auto simp: pgp_payment_method_id_def split: option.splits)

theorem pgp_payment_method_id_total_iff_witness:
  "pgp_payment_method_id \<lparr>pgp_payment_method_entity = None, stripe_card_entity = None\<rparr>
     = Inl UnboundLocalError \<and>
   \<not> (\<exists>v. pgp_payment_method_id
          \<lparr>pgp_payment_method_entity = None, stripe_card_entity = None\<rparr> = Inr v)"
  using pgp_payment_method_id_total_iff
    [of "\<lparr>pgp_payment_method_entity = None, stripe_card_entity = None\<rparr>"]
  by simp

section \<open>Basic facts\<close>

lemmas io_defs = bind_def ret_def raise_def except_DataError_def except_Exception_def

lemmas py_int_defs = py_int_def py_strip_def is_space_def py_nat_def is_digit_def digit_val_def

lemmas repo_defs = get_payer_by_dd_payer_id_and_payer_type_def get_payer_by_id_def
  get_payer_and_pgp_customer_by_id_def insert_payer_def insert_payer_and_pgp_customer_def
  get_stripe_customer_def insert_stripe_customer_def update_pgp_customer_def
  update_stripe_customer_def

lemmas obj_defs = new_RawPayer_def read_RawPayer_def assign_pgp_customer_entity_def
  assign_stripe_customer_entity_def

lemmas world_defs = empty_world_def legacy_world_def legacy_customer_def current_world_def
  current_payer_def current_pgp_customer_def

subsection \<open>The fault schedule\<close>

lemma next_fault_upd [simp]:
  "next_fault (st\<lparr>calls := c\<rparr>) = next_fault st"
  "next_fault (st\<lparr>uuid_counter := u\<rparr>) = next_fault st"
  "next_fault (st\<lparr>payers := p\<rparr>) = next_fault st"
  "next_fault (st\<lparr>pgp_customers := pc\<rparr>) = next_fault st"
  "next_fault (st\<lparr>stripe_customers := sc\<rparr>) = next_fault st"
  "next_fault (st\<lparr>pgp_payment_methods := pm\<rparr>) = next_fault st"
  "next_fault (st\<lparr>gw_script := g\<rparr>) = next_fault st"
  "next_fault (st\<lparr>next_serial := n\<rparr>) = next_fault st"
  "next_fault (st\<lparr>objs := os\<rparr>) = next_fault st"
  by (simp_all add: next_fault_def)

lemma next_fault_Cons [simp]: "db_faults st = f # rest \<Longrightarrow> next_fault st = f"
  by (cases f) (simp_all add: next_fault_def)




lemma db_call_ok:
  "next_fault st = None \<Longrightarrow>
   db_call ev act st =
     (case act (st\<lparr>calls := calls st @ [ev], db_faults := tl (db_faults st)\<rparr>) of
        (x, st2) \<Rightarrow> (Inr x, st2))"
  by (simp add: db_call_def)


lemma id_types_distinct:
  "DD_PAYMENT_PAYER_ID \<noteq> STRIPE_CUSTOMER_ID"
  "DD_PAYMENT_PAYER_ID \<noteq> STRIPE_CUSTOMER_SERIAL_ID"
  "DD_CONSUMER_ID \<noteq> STRIPE_CUSTOMER_ID"
  "DD_CONSUMER_ID \<noteq> STRIPE_CUSTOMER_SERIAL_ID"
  "STRIPE_CUSTOMER_ID \<noteq> []"
  "STRIPE_CUSTOMER_SERIAL_ID \<noteq> []"
  by (simp_all add: DD_PAYMENT_PAYER_ID_def DD_CONSUMER_ID_def STRIPE_CUSTOMER_ID_def
      STRIPE_CUSTOMER_SERIAL_ID_def)

subsection \<open>Which strings int accepts\<close>

lemma is_digit_not_space: "is_digit c \<Longrightarrow> \<not> is_space c"
  by (auto simp: is_digit_def is_space_def)

lemma digit_not_sign: "is_digit c \<Longrightarrow> c \<noteq> CHR ''-'' \<and> c \<noteq> CHR ''+''"
  by (auto simp: is_digit_def)

lemma py_digits_all_digits: "list_all is_digit s \<Longrightarrow> py_digits acc s \<noteq> None"
  by (induction s arbitrary: acc) auto

lemma py_strip_digits:
  assumes ne: "s \<noteq> []" and d: "list_all is_digit s"
  shows "py_strip s = s"
proof -
  have front: "dropWhile is_space s = s"
    using ne d by (cases s) (auto simp: is_digit_not_space)
  have "list_all is_digit (rev s)"
    using d by (simp add: list_all_iff)
  moreover have "rev s \<noteq> []"
    using ne by simp
  ultimately have rear: "dropWhile is_space (rev s) = rev s"
    by (cases "rev s") (auto simp: is_digit_not_space)
  show ?thesis
    by (simp add: py_strip_def front rear)
qed

lemma py_int_digits: "s \<noteq> [] \<Longrightarrow> list_all is_digit s \<Longrightarrow> py_int s \<noteq> None"
  using py_digits_all_digits
  by (cases s) (auto simp: py_int_def py_strip_digits py_nat_def digit_not_sign)

lemma py_digits_bad:
  "\<exists>c \<in> set s. \<not> is_digit c \<and> c \<noteq> CHR ''_'' \<Longrightarrow> py_digits acc s = None"
  by (induction s arbitrary: acc) auto

lemma py_nat_bad: "\<exists>c \<in> set s. \<not> is_digit c \<and> c \<noteq> CHR ''_'' \<Longrightarrow> py_nat s = None"
  by (cases s) (auto simp: py_nat_def intro!: py_digits_bad)

lemma dropWhile_keeps: "c \<in> set s \<Longrightarrow> \<not> P c \<Longrightarrow> c \<in> set (dropWhile P s)"
  by (induction s) auto

lemma py_strip_keeps: "c \<in> set s \<Longrightarrow> \<not> is_space c \<Longrightarrow> c \<in> set (py_strip s)"
  by (simp add: py_strip_def dropWhile_keeps)

lemma py_int_bad:
  assumes "c \<in> set s" and "\<not> int_char c"
  shows "py_int s = None"
proof -
  have c: "\<not> is_digit c" "\<not> is_space c" "c \<noteq> CHR ''_''" "c \<noteq> CHR ''+''" "c \<noteq> CHR ''-''"
    using assms(2) by (auto simp: int_char_def)
  have in_strip: "c \<in> set (py_strip s)"
    using assms(1) c by (simp add: py_strip_keeps)
  show ?thesis
  proof (cases "py_strip s")
    case Nil
    then show ?thesis by (simp add: py_int_def)
  next
    case (Cons d ds)
    have whole: "py_nat (d # ds) = None"
      using in_strip c Cons by (intro py_nat_bad) auto
    have "d = CHR ''-'' \<or> d = CHR ''+'' \<Longrightarrow> py_nat ds = None"
      using in_strip c Cons by (intro py_nat_bad) auto
    then show ?thesis
      using Cons whole by (auto simp: py_int_def)
  qed
qed

subsection \<open>The grammar of int\<close>

lemma digit_not_underscore: "is_digit c \<Longrightarrow> c \<noteq> CHR ''_''"
  by (auto simp: is_digit_def)

lemma sign_not_space: "\<not> is_space CHR ''-''" "\<not> is_space CHR ''+''"
  by (simp_all add: is_space_def)

lemma digitpart_hd: "digitpart (c # cs) \<Longrightarrow> is_digit c"
  by (cases cs) auto

lemma digitpart_last: "digitpart s \<Longrightarrow> s \<noteq> [] \<and> is_digit (last s)"
  by (induction s rule: digitpart.induct) (auto split: if_splits)

lemma py_digits_digitpart:
  "is_digit c \<Longrightarrow> (py_digits acc cs \<noteq> None) = digitpart (c # cs)"
proof (induction acc cs arbitrary: c rule: py_digits.induct)
  case (1 acc)
  then show ?case by simp
next
  case (2 acc d ds)
  show ?case
  proof (cases "is_digit d")
    case True
    then show ?thesis
      using "2.IH"(1) [OF True True] "2.prems" by (simp add: digit_not_underscore)
  next
    case nd: False
    show ?thesis
    proof (cases "d = CHR ''_'' \<and> ds \<noteq> [] \<and> is_digit (hd ds)")
      case True
      then obtain e es where ds: "ds = e # es" and e: "is_digit e"
        by (cases ds) auto
      have "(py_digits acc ds \<noteq> None) = digitpart (e # ds)"
        using "2.IH"(2) [OF nd True e] .
      then have "(py_digits acc ds \<noteq> None) = digitpart ds"
        using ds e by (simp add: digit_not_underscore)
      then show ?thesis
        using True nd "2.prems" by simp
    next
      case False
      have nodp: "\<not> digitpart (c # d # ds)"
      proof (cases "d = CHR ''_''")
        case True
        then have "ds = [] \<or> \<not> is_digit (hd ds)" using False by simp
        then have "\<not> digitpart ds"
          by (cases ds) (auto dest: digitpart_hd)
        then show ?thesis using True by simp
      next
        case False
        then show ?thesis using nd by (auto dest: digitpart_hd)
      qed
      have lhs: "py_digits acc (d # ds) = None"
        using False nd by auto
      from nodp lhs show ?thesis
        by (simp del: digitpart.simps)
    qed
  qed
qed

lemma py_nat_digitpart: "(py_nat s \<noteq> None) = digitpart s"
proof (cases s)
  case Nil
  then show ?thesis by (simp add: py_nat_def)
next
  case (Cons c cs)
  show ?thesis
  proof (cases "is_digit c")
    case True
    then show ?thesis
      using Cons py_digits_digitpart [OF True] by (simp add: py_nat_def)
  next
    case False
    then show ?thesis
      using Cons by (auto simp: py_nat_def dest: digitpart_hd)
  qed
qed

lemma dropWhile_spaces: "list_all P ws \<Longrightarrow> dropWhile P (ws @ xs) = dropWhile P xs"
  by (induction ws) auto

lemma py_strip_blanks:
  assumes "list_all is_space ws1" and "list_all is_space ws2"
  shows "py_strip (ws1 @ s @ ws2) = py_strip s"
proof -
  have front: "dropWhile is_space (ws1 @ s @ ws2) = dropWhile is_space (s @ ws2)"
    using assms(1) by (rule dropWhile_spaces)
  have "list_all is_space (rev ws2)"
    using assms(2) by (simp add: list_all_iff)
  then have rear: "dropWhile is_space (rev ws2 @ xs) = dropWhile is_space xs" for xs
    by (rule dropWhile_spaces)
  show ?thesis
  proof (cases "list_all is_space s")
    case True
    then have "list_all is_space (s @ ws2)" using assms(2) by simp
    then have e1: "dropWhile is_space (s @ ws2) = []"
      by (simp only: dropWhile_eq_Nil_conv list_all_iff)
    have e2: "dropWhile is_space s = []"
      using True by (simp only: dropWhile_eq_Nil_conv list_all_iff)
    show ?thesis
      unfolding py_strip_def front e1 e2 by simp
  next
    case False
    then obtain a where a: "a \<in> set s" "\<not> is_space a"
      by (auto simp: list_all_iff)
    have "dropWhile is_space (s @ ws2) = dropWhile is_space s @ ws2"
      using a by (simp add: dropWhile_append1)
    then show ?thesis
      by (simp add: py_strip_def front rear)
  qed
qed

lemma py_strip_tight:
  assumes "t \<noteq> []" and "\<not> is_space (hd t)" and "\<not> is_space (last t)"
  shows "py_strip t = t"
proof -
  have front: "dropWhile is_space t = t"
    using assms(1,2) by (cases t) auto
  have "rev t \<noteq> []" "\<not> is_space (hd (rev t))"
    using assms(1,3) by (simp_all add: hd_rev)
  then have "dropWhile is_space (rev t) = rev t"
    by (cases "rev t") auto
  then show ?thesis by (simp add: py_strip_def front)
qed

lemma py_strip_decompose:
  "\<exists>ws1 ws2. s = ws1 @ py_strip s @ ws2 \<and> list_all is_space ws1 \<and> list_all is_space ws2"
proof -
  let ?a = "takeWhile is_space s"
  let ?m = "dropWhile is_space s"
  let ?b = "rev (takeWhile is_space (rev ?m))"
  have "rev ?m = takeWhile is_space (rev ?m) @ dropWhile is_space (rev ?m)"
    by simp
  then have "?m = rev (dropWhile is_space (rev ?m)) @ ?b"
    by (metis rev_append rev_rev_ident)
  then have "s = ?a @ py_strip s @ ?b"
    by (metis py_strip_def takeWhile_dropWhile_id)
  moreover have "list_all is_space ?a"
    by (auto simp: list_all_iff dest: set_takeWhileD)
  moreover have "list_all is_space ?b"
    by (auto simp: list_all_iff dest: set_takeWhileD)
  ultimately show ?thesis by blast
qed

lemma py_int_grammar: "(py_int s \<noteq> None) = int_literal s"
proof
  assume ok: "py_int s \<noteq> None"
  obtain ws1 ws2 where dec: "s = ws1 @ py_strip s @ ws2" "list_all is_space ws1"
      "list_all is_space ws2"
    using py_strip_decompose by blast
  show "int_literal s"
  proof (cases "py_strip s")
    case Nil
    then show ?thesis using ok by (simp add: py_int_def)
  next
    case (Cons c cs)
    show ?thesis
    proof (cases "c = CHR ''-'' \<or> c = CHR ''+''")
      case True
      then have "py_nat cs \<noteq> None"
        using ok Cons by (auto simp: py_int_def)
      then have body: "digitpart cs" using py_nat_digitpart [of cs] by blast
      have "s = ws1 @ [c] @ cs @ ws2" using dec(1) Cons by simp
      moreover have "[c] \<in> {[], ''+'', ''-''}" using True by auto
      ultimately show ?thesis
        using dec(2,3) body unfolding int_literal_def by blast
    next
      case False
      then have "py_nat (c # cs) \<noteq> None"
        using ok Cons by (auto simp: py_int_def)
      then have body: "digitpart (c # cs)" using py_nat_digitpart [of "c # cs"] by blast
      have "s = ws1 @ [] @ (c # cs) @ ws2" using dec(1) Cons by simp
      then show ?thesis
        using dec(2,3) body unfolding int_literal_def by blast
    qed
  qed
next
  assume "int_literal s"
  then obtain ws1 sign body ws2 where s: "s = ws1 @ sign @ body @ ws2"
    and ws: "list_all is_space ws1" "list_all is_space ws2"
    and sign: "sign \<in> {[], ''+'', ''-''}" and body: "digitpart body"
    unfolding int_literal_def by blast
  from body obtain b bs where bb: "body = b # bs" and b: "is_digit b"
    by (cases body) (auto dest: digitpart_hd)
  have lastd: "is_digit (last body)" using digitpart_last [OF body] by simp
  let ?t = "sign @ body"
  have t1: "?t \<noteq> []" using bb by simp
  have t2: "\<not> is_space (hd ?t)"
    using sign bb b by (auto simp: sign_not_space is_digit_not_space)
  have t3: "\<not> is_space (last ?t)"
    using bb lastd by (simp add: is_digit_not_space)
  have "py_strip s = py_strip ?t"
    using py_strip_blanks [OF ws, of ?t] s by simp
  then have strip: "py_strip s = ?t"
    using py_strip_tight [OF t1 t2 t3] by simp
  have nat: "py_nat body \<noteq> None" using body py_nat_digitpart [of body] by blast
  from sign consider "sign = []" | "sign = ''+''" | "sign = ''-''" by auto
  then show "py_int s \<noteq> None"
  proof cases
    case 1
    then show ?thesis
      using strip bb b nat by (auto simp: py_int_def dest: digit_not_sign)
  next
    case 2
    then show ?thesis
      using strip nat by (auto simp: py_int_def)
  next
    case 3
    then show ?thesis
      using strip nat by (auto simp: py_int_def)
  qed
qed

subsection \<open>The dispatch of get_payer_raw_objects\<close>

lemma PayerClient_get_current:
  "\<not> truthy pit \<or> pit = Some DD_PAYMENT_PAYER_ID \<or> pit = Some DD_CONSUMER_ID \<Longrightarrow>
   PayerClient_get_payer_raw_objects pid pit pt st =
     PayerOps_get_payer_raw_objects pid pit pt st"
  by (auto simp: PayerClient_get_payer_raw_objects_def interface_get_payer_raw_objects_def
      io_defs)

lemma PayerClient_get_legacy:
  "pit = Some STRIPE_CUSTOMER_ID \<or> pit = Some STRIPE_CUSTOMER_SERIAL_ID \<Longrightarrow>
   PayerClient_get_payer_raw_objects pid pit pt st =
     LegacyPayerOps_get_payer_raw_objects pid pit pt st"
  using id_types_distinct
  by (auto simp: PayerClient_get_payer_raw_objects_def interface_get_payer_raw_objects_def
      io_defs truthy_def)

lemma PayerClient_get_invalid:
  "truthy pit \<Longrightarrow>
   pit \<notin> {Some DD_PAYMENT_PAYER_ID, Some DD_CONSUMER_ID, Some STRIPE_CUSTOMER_ID,
           Some STRIPE_CUSTOMER_SERIAL_ID} \<Longrightarrow>
   PayerClient_get_payer_raw_objects pid pit pt st =
     (Inl (PayerReadError PAYER_READ_INVALID_DATA False), st)"
  by (auto simp: PayerClient_get_payer_raw_objects_def interface_get_payer_raw_objects_def
      io_defs)

lemma legacy_get_not_found:
  "\<not> truthy pt \<or> pt = Some MARKETPLACE \<Longrightarrow>
   LegacyPayerOps_get_payer_raw_objects pid pit pt st =
     (Inl (PayerReadError PAYER_READ_NOT_FOUND False), st)"
  by (auto simp: LegacyPayerOps_get_payer_raw_objects_def io_defs)

lemma legacy_get_success:
  "LegacyPayerOps_get_payer_raw_objects pid pit pt st = (Inr a, st') \<Longrightarrow>
   truthy pt \<and> pt \<noteq> Some MARKETPLACE \<and>
   (\<exists>sc. find (stripe_customer_matches
                (if pit = Some STRIPE_CUSTOMER_ID then By_stripe_id pid
                 else By_serial_id pid)) (stripe_customers st) = Some sc
         \<and> stripe_customer_entity (objs st' ! a) = Some sc)"
  apply (simp add: LegacyPayerOps_get_payer_raw_objects_def io_defs get_stripe_customer_def
      get_payer_by_id_def db_call_def Let_def new_RawPayer_def
      split: if_splits prod.splits sum.splits list.splits option.splits exn.splits
        driver_error.splits)
  apply auto
  done

section \<open>Properties of the payer resolution\<close>

text \<open>
  C4: \<^verbatim>\<open>PayerClient.get_payer_raw_objects\<close> selects the strategy by
  \<^verbatim>\<open>payer_id_type\<close>. Unspecified (\<^verbatim>\<open>None\<close>, or the empty string, which Python
  treats alike), \<^verbatim>\<open>dd_payer_id\<close> and \<^verbatim>\<open>dd_consumer_id\<close> go to PayerOps;
  \<^verbatim>\<open>stripe_customer_id\<close> and \<^verbatim>\<open>stripe_customer_serial_id\<close> go to LegacyPayerOps;
  any other value raises PayerReadError(PAYER_READ_INVALID_DATA, retryable=False) and
  leaves the world as it was, so that no query has been issued.
\<close>

theorem get_payer_raw_objects_strategy:
  "(\<not> truthy pit \<or> pit = Some DD_PAYMENT_PAYER_ID \<or> pit = Some DD_CONSUMER_ID \<longrightarrow>
      PayerClient_get_payer_raw_objects pid pit pt st =
        PayerOps_get_payer_raw_objects pid pit pt st) \<and>
   (pit = Some STRIPE_CUSTOMER_ID \<or> pit = Some STRIPE_CUSTOMER_SERIAL_ID \<longrightarrow>
      PayerClient_get_payer_raw_objects pid pit pt st =
        LegacyPayerOps_get_payer_raw_objects pid pit pt st) \<and>
   (truthy pit \<and>
    pit \<notin> {Some DD_PAYMENT_PAYER_ID, Some DD_CONSUMER_ID, Some STRIPE_CUSTOMER_ID,
            Some STRIPE_CUSTOMER_SERIAL_ID} \<longrightarrow>
      PayerClient_get_payer_raw_objects pid pit pt st =
        (Inl (PayerReadError PAYER_READ_INVALID_DATA False), st))"
  using PayerClient_get_current [of pit pid pt st] PayerClient_get_legacy [of pit pid pt st]
    PayerClient_get_invalid [of pit pid pt st]
  by blast

theorem get_payer_raw_objects_strategy_witness:
  "PayerClient_get_payer_raw_objects ''cus_1'' (Some ''email'') (Some ''store'') legacy_world =
     (Inl (PayerReadError PAYER_READ_INVALID_DATA False), legacy_world) \<and>
   PayerClient_get_payer_raw_objects ''cus_1'' None (Some ''store'') legacy_world =
     PayerOps_get_payer_raw_objects ''cus_1'' None (Some ''store'') legacy_world \<and>
   PayerClient_get_payer_raw_objects ''cus_1'' (Some ''stripe_customer_id'') (Some ''store'')
       legacy_world =
     LegacyPayerOps_get_payer_raw_objects ''cus_1'' (Some ''stripe_customer_id'')
       (Some ''store'') legacy_world"
  using get_payer_raw_objects_strategy
      [of "Some ''email''" "''cus_1''" "Some ''store''" legacy_world]
    get_payer_raw_objects_strategy [of None "''cus_1''" "Some ''store''" legacy_world]
    get_payer_raw_objects_strategy
      [of "Some ''stripe_customer_id''" "''cus_1''" "Some ''store''" legacy_world]
  by (simp add: truthy_def DD_PAYMENT_PAYER_ID_def DD_CONSUMER_ID_def STRIPE_CUSTOMER_ID_def
      STRIPE_CUSTOMER_SERIAL_ID_def)

text \<open>
  C8: on the legacy path (\<^verbatim>\<open>payer_id_type\<close> stripe_customer_id or
  stripe_customer_serial_id), a lookup whose \<^verbatim>\<open>payer_type\<close> is unspecified or
  "marketplace" raises PayerReadError(PAYER_READ_NOT_FOUND, retryable=False) and leaves
  the world as it was (no query is issued), whatever the tables hold. A lookup on that
  path returns only when a payer_type other than "marketplace" is given and the
  stripe_customer table has a matching row, which the result carries.
\<close>

theorem legacy_lookup_needs_payer_type:
  "(pit = Some STRIPE_CUSTOMER_ID \<or> pit = Some STRIPE_CUSTOMER_SERIAL_ID) \<longrightarrow>
     ((\<not> truthy pt \<or> pt = Some MARKETPLACE \<longrightarrow>
         PayerClient_get_payer_raw_objects pid pit pt st =
           (Inl (PayerReadError PAYER_READ_NOT_FOUND False), st)) \<and>
      (PayerClient_get_payer_raw_objects pid pit pt st = (Inr a, st') \<longrightarrow>
         truthy pt \<and> pt \<noteq> Some MARKETPLACE \<and>
         (\<exists>sc. find (stripe_customer_matches
                      (if pit = Some STRIPE_CUSTOMER_ID then By_stripe_id pid
                       else By_serial_id pid)) (stripe_customers st) = Some sc
               \<and> stripe_customer_entity (objs st' ! a) = Some sc)))"
  using legacy_get_not_found [of pt pid pit st] legacy_get_success [of pid pit pt st a st']
  by (simp add: PayerClient_get_legacy)

theorem legacy_lookup_needs_payer_type_witness:
  "PayerClient_get_payer_raw_objects ''cus_1'' (Some ''stripe_customer_id'') None legacy_world =
     (Inl (PayerReadError PAYER_READ_NOT_FOUND False), legacy_world) \<and>
   PayerClient_get_payer_raw_objects ''cus_1'' (Some ''stripe_customer_id'')
       (Some ''marketplace'') legacy_world =
     (Inl (PayerReadError PAYER_READ_NOT_FOUND False), legacy_world) \<and>
   find (stripe_customer_matches (By_stripe_id ''cus_1'')) (stripe_customers legacy_world) =
     Some legacy_customer"
  using legacy_lookup_needs_payer_type
      [of "Some ''stripe_customer_id''" None "''cus_1''" legacy_world]
    legacy_lookup_needs_payer_type
      [of "Some ''stripe_customer_id''" "Some ''marketplace''" "''cus_1''" legacy_world]
  by (simp add: truthy_def STRIPE_CUSTOMER_ID_def MARKETPLACE_def legacy_world_def
      empty_world_def legacy_customer_def stripe_customer_matches_def)

section \<open>Properties of the payer API\<close>

text \<open>
  C7: a create_payer request whose \<^verbatim>\<open>dd_payer_id\<close> is non-empty and is not
  accepted by \<^verbatim>\<open>int\<close> is rejected with PAYER_CREATE_INVALID_DATA and
  retryable=False, and the world is as it was: the processor has not been called, so
  no gateway or ledger call has been issued. A request whose \<^verbatim>\<open>dd_payer_id\<close>
  \<^verbatim>\<open>int\<close> accepts goes on to the processor. What \<^verbatim>\<open>int\<close> accepts is exactly
  the integer literals: blanks, an optional sign, digits with single underscores between
  them, blanks. So a non-empty string of digits is accepted, and a string with a
  character that is no digit, blank, sign or underscore (a letter, say) is not.
\<close>

theorem create_payer_numeric_check:
  "(req_dd_payer_id req = Some s \<and> s \<noteq> [] \<and> py_int s = None \<longrightarrow>
      create_payer msgs proc req st =
        (Inl (PaymentException 422 PAYER_CREATE_INVALID_DATA
                (msgs PAYER_CREATE_INVALID_DATA) False), st)) \<and>
   (req_dd_payer_id req = Some s \<and> py_int s \<noteq> None \<longrightarrow>
      create_payer msgs proc req st =
        (case proc req st of
           (Inl e, st') \<Rightarrow> (Inl (as_PaymentException msgs e), st')
         | r \<Rightarrow> r)) \<and>
   (s \<noteq> [] \<and> list_all is_digit s \<longrightarrow> py_int s \<noteq> None) \<and>
   ((\<exists>c \<in> set s. \<not> int_char c) \<longrightarrow> py_int s = None) \<and>
   (py_int s \<noteq> None) = int_literal s"
proof -
  have reject: "req_dd_payer_id req = Some s \<and> s \<noteq> [] \<and> py_int s = None \<longrightarrow>
      create_payer msgs proc req st =
        (Inl (PaymentException 422 PAYER_CREATE_INVALID_DATA
                (msgs PAYER_CREATE_INVALID_DATA) False), st)"
    by (auto simp: create_payer_def io_defs truthy_def HTTP_422_UNPROCESSABLE_ENTITY_def)
  have pass: "req_dd_payer_id req = Some s \<and> py_int s \<noteq> None \<longrightarrow>
      create_payer msgs proc req st =
        (case proc req st of
           (Inl e, st') \<Rightarrow> (Inl (as_PaymentException msgs e), st')
         | r \<Rightarrow> r)"
    by (auto simp: create_payer_def io_defs truthy_def py_int_def py_strip_def
        split: option.splits)
  have digits: "s \<noteq> [] \<and> list_all is_digit s \<longrightarrow> py_int s \<noteq> None"
    using py_int_digits [of s] by simp
  have other: "(\<exists>c \<in> set s. \<not> int_char c) \<longrightarrow> py_int s = None"
    using py_int_bad [of _ s] by auto
  have grammar: "(py_int s \<noteq> None) = int_literal s"
    by (rule py_int_grammar)
  show ?thesis
    using reject pass digits other grammar by (intro conjI)
qed

theorem create_payer_numeric_check_witness:
  "create_payer (\<lambda>c. ''invalid'') (\<lambda>r. ret ()) (sample_request ''abc'') empty_world =
     (Inl (PaymentException 422 PAYER_CREATE_INVALID_DATA ''invalid'' False), empty_world) \<and>
   create_payer (\<lambda>c. ''invalid'') (\<lambda>r. ret ())
       (sample_request [CHR 0x1C, CHR ''1'', CHR ''2'']) empty_world =
     (Inl (PaymentException 422 PAYER_CREATE_INVALID_DATA ''invalid'' False), empty_world) \<and>
   create_payer (\<lambda>c. ''invalid'') (\<lambda>r. ret ()) (sample_request ''123'') empty_world =
     (Inr (), empty_world) \<and>
   py_int ''abc'' = None \<and> py_int ''123'' = Some 123 \<and>
   py_int [CHR 0x1C, CHR ''1'', CHR ''2''] = None \<and>
   py_int [CHR ''1'', CHR ''2'', CHR 0x1F] = None \<and>
   py_int ''1__2'' = None \<and> py_int ''+ 12'' = None \<and>
   py_int (CHR 0xA0 # '' +1_2'' @ [CHR 0x85]) = Some 12 \<and>
   int_literal ''123'' \<and> \<not> int_literal [CHR 0x1C, CHR ''1'', CHR ''2'']"
  using create_payer_numeric_check
      [of "sample_request ''abc''" "''abc''" "\<lambda>c. ''invalid''" "\<lambda>r. ret ()" empty_world]
    create_payer_numeric_check
      [of "sample_request [CHR 0x1C, CHR ''1'', CHR ''2'']" "[CHR 0x1C, CHR ''1'', CHR ''2'']"
        "\<lambda>c. ''invalid''" "\<lambda>r. ret ()" empty_world]
    create_payer_numeric_check
      [of "sample_request ''123''" "''123''" "\<lambda>c. ''invalid''" "\<lambda>r. ret ()" empty_world]
  by (simp add: sample_request_def py_int_defs ret_def)

section \<open>Properties of error translation\<close>












section \<open>Properties of the RawPayer aggregate\<close>

lemma PayerOps_update_in_place:
  assumes "a < length (objs st)"
    and "PayerOps_update_payer_default_payment_method a pm pid pt pit st = (Inr b, st')"
  shows "b = a \<and> length (objs st') = length (objs st) \<and>
     (\<forall>i. i \<noteq> a \<longrightarrow> objs st' ! i = objs st ! i) \<and>
     objs st' ! a =
       (case pgp_customer_entity (objs st ! a) of
          Some pc \<Rightarrow> (objs st ! a)\<lparr>pgp_customer_entity :=
                        find (\<lambda>c. pc_id c = pc_id pc) (pgp_customers st')\<rparr>
        | None \<Rightarrow>
            (case stripe_customer_entity (objs st ! a) of
               Some sc \<Rightarrow> (objs st ! a)\<lparr>stripe_customer_entity :=
                             find (\<lambda>c. sc_id c = sc_id sc) (stripe_customers st')\<rparr>
             | None \<Rightarrow> objs st ! a))"
  using assms
  by (auto simp: PayerOps_update_payer_default_payment_method_def io_defs obj_defs repo_defs
       db_call_def Let_def split: option.splits)

lemma Legacy_update_in_place:
  assumes "a < length (objs st)"
    and "LegacyPayerOps_update_payer_default_payment_method a pm pid pt pit st = (Inr b, st')"
  shows "b = a \<and> length (objs st') = length (objs st) \<and>
     (\<forall>i. i \<noteq> a \<longrightarrow> objs st' ! i = objs st ! i) \<and>
     objs st' ! a =
       (case stripe_customer_entity (objs st ! a) of
          Some sc \<Rightarrow> (objs st ! a)\<lparr>stripe_customer_entity :=
                        find (\<lambda>c. sc_id c = sc_id sc) (stripe_customers st')\<rparr>
        | None \<Rightarrow> objs st ! a)"
  using assms
  by (auto simp: LegacyPayerOps_update_payer_default_payment_method_def io_defs obj_defs repo_defs
       db_call_def Let_def split: option.splits)

text \<open>
  C9, as the code has it: \<^verbatim>\<open>update_payer_default_payment_method\<close> of both
  strategies assigns the row that the repository returns to a field of the
  \<^verbatim>\<open>RawPayer\<close> object passed in and returns that same object: the reference
  returned is the reference given, no object is allocated, every other object is
  untouched, and the object's field now holds the updated row.
\<close>

theorem update_assigns_in_place:
  "(a < length (objs st) \<and>
    PayerOps_update_payer_default_payment_method a pm pid pt pit st = (Inr b, st') \<longrightarrow>
      b = a \<and> length (objs st') = length (objs st) \<and>
      (\<forall>i. i \<noteq> a \<longrightarrow> objs st' ! i = objs st ! i) \<and>
      objs st' ! a =
        (case pgp_customer_entity (objs st ! a) of
           Some pc \<Rightarrow> (objs st ! a)\<lparr>pgp_customer_entity :=
                         find (\<lambda>c. pc_id c = pc_id pc) (pgp_customers st')\<rparr>
         | None \<Rightarrow>
             (case stripe_customer_entity (objs st ! a) of
                Some sc \<Rightarrow> (objs st ! a)\<lparr>stripe_customer_entity :=
                              find (\<lambda>c. sc_id c = sc_id sc) (stripe_customers st')\<rparr>
              | None \<Rightarrow> objs st ! a))) \<and>
   (a < length (objs st) \<and>
    LegacyPayerOps_update_payer_default_payment_method a pm pid pt pit st = (Inr b, st') \<longrightarrow>
      b = a \<and> length (objs st') = length (objs st) \<and>
      (\<forall>i. i \<noteq> a \<longrightarrow> objs st' ! i = objs st ! i) \<and>
      objs st' ! a =
        (case stripe_customer_entity (objs st ! a) of
           Some sc \<Rightarrow> (objs st ! a)\<lparr>stripe_customer_entity :=
                         find (\<lambda>c. sc_id c = sc_id sc) (stripe_customers st')\<rparr>
         | None \<Rightarrow> objs st ! a))"
  using PayerOps_update_in_place [of a st pm pid pt pit b st']
    Legacy_update_in_place [of a st pm pid pt pit b st']
  by blast


theorem update_assigns_in_place_witness:
  "length (objs (snd (PayerOps_update_payer_default_payment_method 0 ''pm_2'' ''pay_a'' None
       None current_world))) = 1 \<and>
   payer_entity (objs (snd (PayerOps_update_payer_default_payment_method 0 ''pm_2'' ''pay_a''
       None None current_world)) ! 0) = Some current_payer"
proof -
  let ?run = "PayerOps_update_payer_default_payment_method 0 ''pm_2'' ''pay_a'' None None
       current_world"
  have ok: "fst ?run = Inr 0"
    by (simp add: PayerOps_update_payer_default_payment_method_def io_defs obj_defs repo_defs
       db_call_def next_fault_def world_defs)
  then have run: "?run = (Inr 0, snd ?run)"
    by (metis prod.collapse)
  have valid: "length (objs current_world) = 1"
    by (simp add: world_defs)
  have init: "objs current_world ! 0 = \<lparr>payer_entity = Some current_payer,
       pgp_customer_entity = Some current_pgp_customer, stripe_customer_entity = None\<rparr>"
    by (simp add: world_defs)
  show ?thesis
    using update_assigns_in_place [of 0 current_world "''pm_2''" "''pay_a''" None None 0 "snd ?run"] run valid init
    by simp
qed


text \<open>
  C9 as stated fails: the update of a one-object store returns the reference it was
  given, and the object at that reference, which held the old row, holds the new one.
\<close>

theorem update_in_place_counterexample:
  "fst (PayerOps_update_payer_default_payment_method 0 ''pm_2'' ''pay_a'' None None
          current_world) = Inr 0 \<and>
   pgp_customer_entity (objs current_world ! 0) = Some current_pgp_customer \<and>
   objs (snd (PayerOps_update_payer_default_payment_method 0 ''pm_2'' ''pay_a'' None None
          current_world)) =
     [\<lparr>payer_entity = Some current_payer,
       pgp_customer_entity =
         Some (current_pgp_customer\<lparr>pc_default_payment_method_id := Some ''pm_2''\<rparr>),
       stripe_customer_entity = None\<rparr>]"
  by (simp add: PayerOps_update_payer_default_payment_method_def io_defs obj_defs repo_defs
       db_call_def next_fault_def world_defs)


section \<open>Properties of ledger writes\<close>











section \<open>Properties of payer creation\<close>

lemma no_fault [simp]: "db_faults st = [] \<Longrightarrow> next_fault st = None"
  by (simp add: next_fault_def)

lemma has_existing_payer_never_rejects:
  "fst (has_existing_payer d t st) \<noteq> Inl (PayerCreationError PAYER_CREATE_PAYER_ALREADY_EXIST r)"
  by (auto simp: has_existing_payer_def io_defs repo_defs db_call_def Let_def split: option.splits driver_error.splits)

lemma has_existing_payer_ok:
  "next_fault st = None \<Longrightarrow>
   has_existing_payer d t st =
     (Inr (), st\<lparr>calls := calls st @ [DbRead ''get_payer_by_dd_payer_id_and_payer_type''],
                  db_faults := tl (db_faults st)\<rparr>)"
  by (auto simp: has_existing_payer_def io_defs repo_defs db_call_ok split: option.splits)

lemma pgp_create_customer_ok:
  "cc country \<Longrightarrow> gw_script st = GwOk cid # rest \<Longrightarrow>
   pgp_create_customer cc country email descr st =
     (Inr cid, st\<lparr>calls := calls st @ [GatewayCall ''create_customer''], gw_script := rest\<rparr>)"
  by (simp add: pgp_create_customer_def io_defs CountryCode_def stripe_create_customer_def gateway_call_def)

lemma PayerOps_create_ok:
  "next_fault st = None \<Longrightarrow>
   \<exists>p pc st'. PayerOps_create_payer_raw_objects d t c cid code descr dpm st = (Inr (length (objs st)), st') \<and>
     payers st' = payers st @ [p] \<and> pgp_customers st' = pgp_customers st @ [pc] \<and>
     stripe_customers st' = stripe_customers st \<and> db_faults st' = tl (db_faults st) \<and>
     p_dd_payer_id p = d \<and> p_payer_type p = t \<and> p_legacy_stripe_customer_id p = cid \<and>
     pc_payer_id pc = p_id p \<and>
     objs st' = objs st @ [\<lparr>payer_entity = Some p, pgp_customer_entity = Some pc, stripe_customer_entity = None\<rparr>]"
  by (simp add: PayerOps_create_payer_raw_objects_def io_defs obj_defs repo_defs
      generate_object_uuid_def db_call_ok)

lemma Legacy_create_payer_row:
  "next_fault st = None \<Longrightarrow>
   \<exists>p. payers (snd (LegacyPayerOps_create_payer_raw_objects d t c cid code descr dpm st)) = payers st @ [p] \<and>
     p_dd_payer_id p = d \<and> p_payer_type p = t \<and> p_legacy_stripe_customer_id p = cid"
  by (auto simp: LegacyPayerOps_create_payer_raw_objects_def io_defs obj_defs repo_defs
      generate_object_uuid_def on_DataError_in_create_def db_call_def Let_def
      split: option.splits driver_error.splits)

lemma Legacy_create_ok:
  "db_faults st = [] \<Longrightarrow>
   py_int d \<noteq> None \<or> find (stripe_customer_matches (By_stripe_id cid)) (stripe_customers st) \<noteq> None \<Longrightarrow>
   \<exists>p sc st'. LegacyPayerOps_create_payer_raw_objects d t c cid code descr dpm st = (Inr (length (objs st)), st') \<and>
     payers st' = payers st @ [p] \<and> pgp_customers st' = pgp_customers st \<and> db_faults st' = [] \<and>
     p_dd_payer_id p = d \<and> p_payer_type p = t \<and> p_legacy_stripe_customer_id p = cid \<and>
     (case find (stripe_customer_matches (By_stripe_id cid)) (stripe_customers st) of
        Some found \<Rightarrow> sc = found \<and> stripe_customers st' = stripe_customers st
      | None \<Rightarrow> stripe_customers st' = stripe_customers st @ [sc] \<and> sc_stripe_id sc = cid) \<and>
     objs st' = objs st @ [\<lparr>payer_entity = Some p, pgp_customer_entity = None, stripe_customer_entity = Some sc\<rparr>]"
  by (auto simp: LegacyPayerOps_create_payer_raw_objects_def io_defs obj_defs repo_defs
      generate_object_uuid_def db_call_def next_fault_def Let_def split: option.splits)

lemma snd_bind_call_method: "snd (bind m (call_method f) st) = snd (m st)"
  by (simp add: bind_def call_method_def split: prod.splits sum.splits)

lemma fst_bind_call_method:
  "m st = (Inr a, st') \<Longrightarrow> fst (bind m (call_method f) st) = f (objs st' ! a)"
  by (simp add: bind_def call_method_def)

lemma PayerClient_create_count:
  assumes "next_fault st = None"
  shows "payer_count d t (snd (PayerClient_create_payer_raw_objects d t c cid code descr dpm st)) =
     payer_count d t st + 1"
proof (cases "t = MARKETPLACE")
  case True
  from PayerOps_create_ok [OF assms, of d t c cid code descr dpm]
  show ?thesis using True
    by (auto simp: PayerClient_create_payer_raw_objects_def
        interface_create_payer_raw_objects_def payer_count_def)
next
  case False
  from Legacy_create_payer_row [OF assms, of d t c cid code descr dpm]
  show ?thesis using False
    by (auto simp: PayerClient_create_payer_raw_objects_def
        interface_create_payer_raw_objects_def payer_count_def)
qed

lemma PayerClient_create_ok:
  assumes "db_faults st = []" and "t = MARKETPLACE \<or> py_int d \<noteq> None"
  shows "\<exists>p rp st'. PayerClient_create_payer_raw_objects d t c cid code descr dpm st =
           (Inr (length (objs st)), st') \<and> objs st' = objs st @ [rp] \<and>
           payer_entity rp = Some p \<and> p_dd_payer_id p = d \<and> p_payer_type p = t \<and>
           p_legacy_stripe_customer_id p = cid"
proof (cases "t = MARKETPLACE")
  case True
  have "next_fault st = None" using assms(1) by simp
  from PayerOps_create_ok [OF this, of d t c cid code descr dpm]
  show ?thesis using True
    by (auto simp: PayerClient_create_payer_raw_objects_def
        interface_create_payer_raw_objects_def)
next
  case False
  then have "py_int d \<noteq> None" using assms(2) by simp
  then have "py_int d \<noteq> None \<or>
      find (stripe_customer_matches (By_stripe_id cid)) (stripe_customers st) \<noteq> None"
    by simp
  from Legacy_create_ok [OF assms(1) this, of t c code descr dpm]
  show ?thesis using False
    by (auto simp: PayerClient_create_payer_raw_objects_def
        interface_create_payer_raw_objects_def)
qed

lemma create_payer_impl_steps:
  assumes "db_faults st = []" and "gw_script st = GwOk cid # rest" and "cc country"
  shows "\<exists>s2. db_faults s2 = [] \<and> payers s2 = payers st \<and>
     create_payer_impl cc to_payer d t email country descr st =
       bind (PayerClient_create_payer_raw_objects d t country cid STRIPE (Some descr) None)
         (call_method to_payer) s2"
  using assms
  by (intro exI [of _ "st\<lparr>db_faults := [],
        calls := calls st @ [DbRead ''get_payer_by_dd_payer_id_and_payer_type'',
                             GatewayCall ''create_customer''],
        gw_script := rest\<rparr>"])
    (simp add: create_payer_impl_def bind_def has_existing_payer_ok pgp_create_customer_ok)

lemmas eval_defs = io_defs obj_defs repo_defs db_call_def next_fault_def Let_def world_defs
  truthy_def DD_PAYMENT_PAYER_ID_def DD_CONSUMER_ID_def STRIPE_CUSTOMER_ID_def
  STRIPE_CUSTOMER_SERIAL_ID_def MARKETPLACE_def STRIPE_def

text \<open>
  C6: \<^verbatim>\<open>has_existing_payer\<close> never raises
  PayerCreationError(PAYER_CREATE_PAYER_ALREADY_EXIST). When a payer with the given
  \<^verbatim>\<open>dd_payer_id\<close> and \<^verbatim>\<open>payer_type\<close> exists already, no ledger call fails and the
  gateway creates the customer, the check returns normally and \<^verbatim>\<open>create_payer_impl\<close>
  inserts one more payer with that \<^verbatim>\<open>dd_payer_id\<close> and \<^verbatim>\<open>payer_type\<close>; for a
  marketplace payer, or a \<^verbatim>\<open>dd_payer_id\<close> that \<^verbatim>\<open>int\<close> accepts, the operation
  goes on to \<^verbatim>\<open>to_payer\<close> of the new aggregate.
\<close>

theorem create_payer_duplicate_not_rejected:
  "(\<forall>r. fst (has_existing_payer d t st) \<noteq>
          Inl (PayerCreationError PAYER_CREATE_PAYER_ALREADY_EXIST r)) \<and>
   (0 < payer_count d t st \<and> db_faults st = [] \<and> gw_script st = GwOk cid # rest \<and>
    cc country \<longrightarrow>
      fst (has_existing_payer d t st) = Inr () \<and>
      payer_count d t (snd (create_payer_impl cc to_payer d t email country descr st)) =
        payer_count d t st + 1 \<and>
      (t = MARKETPLACE \<or> py_int d \<noteq> None \<longrightarrow>
         (\<exists>rp p. fst (create_payer_impl cc to_payer d t email country descr st) = to_payer rp \<and>
            payer_entity rp = Some p \<and> p_dd_payer_id p = d \<and> p_payer_type p = t \<and>
            p_legacy_stripe_customer_id p = cid)))"
proof (intro conjI allI impI)
  fix r
  show "fst (has_existing_payer d t st) \<noteq>
          Inl (PayerCreationError PAYER_CREATE_PAYER_ALREADY_EXIST r)"
    by (rule has_existing_payer_never_rejects)
next
  assume h: "0 < payer_count d t st \<and> db_faults st = [] \<and> gw_script st = GwOk cid # rest \<and>
    cc country"
  then show "fst (has_existing_payer d t st) = Inr ()"
    by (simp add: has_existing_payer_ok)
next
  assume h: "0 < payer_count d t st \<and> db_faults st = [] \<and> gw_script st = GwOk cid # rest \<and>
    cc country"
  then obtain s2 where s2: "db_faults s2 = []" "payers s2 = payers st"
    and run: "create_payer_impl cc to_payer d t email country descr st =
       bind (PayerClient_create_payer_raw_objects d t country cid STRIPE (Some descr) None)
         (call_method to_payer) s2"
    using create_payer_impl_steps [of st cid rest cc country to_payer d t email descr] by blast
  have "next_fault s2 = None" using s2(1) by simp
  from PayerClient_create_count [OF this, of d t country cid STRIPE "Some descr" None]
  show "payer_count d t (snd (create_payer_impl cc to_payer d t email country descr st)) =
        payer_count d t st + 1"
    using s2(2) by (simp add: run snd_bind_call_method payer_count_def)
next
  assume h: "0 < payer_count d t st \<and> db_faults st = [] \<and> gw_script st = GwOk cid # rest \<and>
    cc country"
  assume ok: "t = MARKETPLACE \<or> py_int d \<noteq> None"
  from h obtain s2 where s2: "db_faults s2 = []" "payers s2 = payers st"
    and run: "create_payer_impl cc to_payer d t email country descr st =
       bind (PayerClient_create_payer_raw_objects d t country cid STRIPE (Some descr) None)
         (call_method to_payer) s2"
    using create_payer_impl_steps [of st cid rest cc country to_payer d t email descr] by blast
  from PayerClient_create_ok [OF s2(1) ok, of country cid STRIPE "Some descr" None]
  obtain p rp st' where
    made: "PayerClient_create_payer_raw_objects d t country cid STRIPE (Some descr) None s2 =
           (Inr (length (objs s2)), st')" "objs st' = objs s2 @ [rp]"
      "payer_entity rp = Some p" "p_dd_payer_id p = d" "p_payer_type p = t"
      "p_legacy_stripe_customer_id p = cid"
    by blast
  have "fst (create_payer_impl cc to_payer d t email country descr st) = to_payer rp"
    using made(1,2) by (simp add: run fst_bind_call_method)
  then show "\<exists>rp p. fst (create_payer_impl cc to_payer d t email country descr st) = to_payer rp \<and>
            payer_entity rp = Some p \<and> p_dd_payer_id p = d \<and> p_payer_type p = t \<and>
            p_legacy_stripe_customer_id p = cid"
    using made(3-6) by blast
qed

theorem create_payer_duplicate_not_rejected_witness:
  "payer_count ''42'' ''marketplace'' current_world = 1 \<and>
   payer_count ''42'' ''marketplace''
     (snd (create_payer_impl us_only no_payer ''42'' ''marketplace'' ''a@b.c'' ''US'' ''d''
             (current_world\<lparr>gw_script := [GwOk ''cus_3'']\<rparr>))) = 2"
proof -
  let ?w = "current_world\<lparr>gw_script := [GwOk ''cus_3'']\<rparr>"
  have one: "payer_count ''42'' ''marketplace'' current_world = 1"
    by (simp add: payer_count_def world_defs)
  have same: "payer_count ''42'' ''marketplace'' ?w = 1"
    by (simp add: payer_count_def world_defs)
  have pre: "0 < payer_count ''42'' ''marketplace'' ?w \<and> db_faults ?w = [] \<and>
      gw_script ?w = GwOk ''cus_3'' # [] \<and> us_only ''US''"
    using same by (simp add: world_defs us_only_def)
  from create_payer_duplicate_not_rejected [where d = "''42''" and t = "''marketplace''"
      and st = ?w and cid = "''cus_3''" and rest = "[]" and cc = us_only
      and to_payer = no_payer and email = "''a@b.c''" and country = "''US''"
      and descr = "''d''"] pre
  have "payer_count ''42'' ''marketplace''
     (snd (create_payer_impl us_only no_payer ''42'' ''marketplace'' ''a@b.c'' ''US'' ''d'' ?w)) =
     payer_count ''42'' ''marketplace'' ?w + 1"
    by blast
  then show ?thesis
    using one same by simp
qed


section \<open>Properties of the order of gateway and ledger calls\<close>

subsection \<open>Relations kept by every step\<close>

lemma preserves_ret: "reflp R \<Longrightarrow> preserves R (ret x)"
  by (simp add: preserves_def ret_def reflp_def)

lemma preserves_raise: "reflp R \<Longrightarrow> preserves R (raise e)"
  by (simp add: preserves_def raise_def reflp_def)

lemma preserves_bind:
  assumes "transp R" and "preserves R m" and "\<And>x. preserves R (f x)"
  shows "preserves R (bind m f)"
proof -
  have "R st (snd (bind m f st))" for st
  proof (cases "m st")
    case (Pair r st')
    have step: "R st st'" using assms(2) Pair by (auto simp: preserves_def dest: spec [of _ st])
    show ?thesis
    proof (cases r)
      case (Inl e)
      then show ?thesis using Pair step by (simp add: bind_def)
    next
      case (Inr x)
      have "R st' (snd (f x st'))" using assms(3) by (simp add: preserves_def)
      then show ?thesis using Pair Inr step assms(1) by (auto simp: bind_def dest: transpD)
    qed
  qed
  then show ?thesis by (simp add: preserves_def)
qed

lemma preserves_except_DataError:
  assumes "transp R" and "preserves R m" and "preserves R h"
  shows "preserves R (except_DataError m h)"
proof -
  have "R st (snd (except_DataError m h st))" for st
  proof (cases "m st")
    case (Pair r st')
    have step: "R st st'" using assms(2) Pair by (auto simp: preserves_def dest: spec [of _ st])
    have "R st' (snd (h st'))" using assms(3) by (simp add: preserves_def)
    then have "R st (snd (h st'))" using step assms(1) by (auto dest: transpD)
    then show ?thesis using Pair step
      by (auto simp: except_DataError_def split: sum.splits exn.splits driver_error.splits)
  qed
  then show ?thesis by (simp add: preserves_def)
qed

lemma preserves_except_Exception:
  assumes "transp R" and "preserves R m" and "preserves R h"
  shows "preserves R (except_Exception m h)"
proof -
  have "R st (snd (except_Exception m h st))" for st
  proof (cases "m st")
    case (Pair r st')
    have step: "R st st'" using assms(2) Pair by (auto simp: preserves_def dest: spec [of _ st])
    have "R st' (snd (h st'))" using assms(3) by (simp add: preserves_def)
    then have "R st (snd (h st'))" using step assms(1) by (auto dest: transpD)
    then show ?thesis using Pair step
      by (auto simp: except_Exception_def split: sum.splits)
  qed
  then show ?thesis by (simp add: preserves_def)
qed

lemma preserves_db_call:
  assumes "\<And>st. R st (snd (act (st\<lparr>calls := calls st @ [ev], db_faults := tl (db_faults st)\<rparr>)))"
    and "\<And>st. R st (st\<lparr>calls := calls st @ [ev], db_faults := tl (db_faults st)\<rparr>)"
  shows "preserves R (db_call ev act)"
proof -
  have "R st (snd (db_call ev act st))" for st
    using assms(1) [of st] assms(2) [of st]
    by (cases "next_fault st")
      (auto simp: db_call_def Let_def split: prod.splits)
  then show ?thesis by (simp add: preserves_def)
qed

subsection \<open>calls only grow\<close>

lemma calls_extend_refl: "reflp calls_extend"
  by (simp add: reflp_def calls_extend_def)

lemma calls_extend_trans: "transp calls_extend"
  by (auto simp: transp_def calls_extend_def)

lemmas ext_intros =
  preserves_bind [OF calls_extend_trans]
  preserves_except_DataError [OF calls_extend_trans]
  preserves_except_Exception [OF calls_extend_trans]
  preserves_ret [OF calls_extend_refl]
  preserves_raise [OF calls_extend_refl]

lemma ext_repo:
  "preserves calls_extend (get_payer_by_dd_payer_id_and_payer_type d t)"
  "preserves calls_extend (get_payer_by_id q)"
  "preserves calls_extend (get_payer_and_pgp_customer_by_id q)"
  "preserves calls_extend (insert_payer p)"
  "preserves calls_extend (insert_payer_and_pgp_customer p pc)"
  "preserves calls_extend (get_stripe_customer sq)"
  "preserves calls_extend (insert_stripe_customer isc)"
  "preserves calls_extend (update_pgp_customer v i)"
  "preserves calls_extend (update_stripe_customer v j)"
  by (auto simp: repo_defs calls_extend_def Let_def intro!: preserves_db_call)

lemma ext_prims:
  "preserves calls_extend (new_RawPayer rp)"
  "preserves calls_extend (read_RawPayer a)"
  "preserves calls_extend (assign_pgp_customer_entity a v)"
  "preserves calls_extend (assign_stripe_customer_entity a w)"
  "preserves calls_extend (generate_object_uuid pre)"
  "preserves calls_extend (on_DataError_in_create b)"
  by (auto simp: obj_defs generate_object_uuid_def on_DataError_in_create_def raise_def
      preserves_def calls_extend_def split: option.splits)

lemma ext_PayerOps_create:
  "preserves calls_extend (PayerOps_create_payer_raw_objects d t c cid code descr dpm)"
  unfolding PayerOps_create_payer_raw_objects_def
  by (auto intro!: ext_intros ext_repo ext_prims)

lemma ext_Legacy_create:
  "preserves calls_extend (LegacyPayerOps_create_payer_raw_objects d t c cid code descr dpm)"
  unfolding LegacyPayerOps_create_payer_raw_objects_def
  by (auto intro!: ext_intros ext_repo ext_prims split: option.splits)

lemma ext_PayerClient_create:
  "preserves calls_extend (PayerClient_create_payer_raw_objects d t c cid code descr dpm)"
  by (simp add: PayerClient_create_payer_raw_objects_def interface_create_payer_raw_objects_def
      ext_PayerOps_create ext_Legacy_create)

lemma ext_lazy_create:
  "preserves calls_extend (lazy_create_payer d c cid code t dpm descr)"
  unfolding lazy_create_payer_def
  by (auto intro!: ext_intros ext_repo ext_prims ext_PayerClient_create split: option.splits)

lemma ext_PayerOps_update:
  "preserves calls_extend (PayerOps_update_payer_default_payment_method a pm pid pt pit)"
  unfolding PayerOps_update_payer_default_payment_method_def
  by (auto intro!: ext_intros ext_repo ext_prims split: option.splits)

lemma ext_Legacy_update:
  "preserves calls_extend (LegacyPayerOps_update_payer_default_payment_method a pm pid pt pit)"
  unfolding LegacyPayerOps_update_payer_default_payment_method_def
  by (auto intro!: ext_intros ext_repo ext_prims split: option.splits)

lemma ext_PayerClient_update:
  "preserves calls_extend
     (PayerClient_update_payer_default_payment_method a pm pid pt pit descr)"
  unfolding PayerClient_update_payer_default_payment_method_def
    interface_update_payer_default_payment_method_def
  by (auto intro!: ext_intros ext_repo ext_prims ext_lazy_create ext_PayerOps_update
      ext_Legacy_update split: option.splits PayerOpsInterface.splits)

subsection \<open>Steps that only read\<close>

lemma reads_only_refl: "reflp reads_only"
  by (simp add: reflp_def reads_only_def same_tables_def)

lemma reads_only_trans: "transp reads_only"
proof (rule transpI)
  fix x y z
  assume a: "reads_only x y" and b: "reads_only y z"
  from a obtain rs where rs: "calls y = calls x @ rs" "list_all is_read rs"
    by (auto simp: reads_only_def)
  from b obtain rs' where rs': "calls z = calls y @ rs'" "list_all is_read rs'"
    by (auto simp: reads_only_def)
  have "calls z = calls x @ (rs @ rs')" "list_all is_read (rs @ rs')"
    using rs rs' by simp_all
  then have "\<exists>qs. calls z = calls x @ qs \<and> list_all is_read qs"
    by blast
  then show "reads_only x z"
    using a b by (simp add: reads_only_def same_tables_def)
qed

lemmas ro_intros =
  preserves_bind [OF reads_only_trans]
  preserves_except_DataError [OF reads_only_trans]
  preserves_ret [OF reads_only_refl]
  preserves_raise [OF reads_only_refl]

lemma ro_repo:
  "preserves reads_only (get_payer_by_id q)"
  "preserves reads_only (get_payer_and_pgp_customer_by_id q)"
  "preserves reads_only (get_stripe_customer sq)"
  by (auto simp: repo_defs reads_only_def same_tables_def is_read_def intro!: preserves_db_call)

lemma ro_new_RawPayer: "preserves reads_only (new_RawPayer rp)"
  by (simp add: preserves_def new_RawPayer_def reads_only_def same_tables_def)

lemma ro_PayerOps_get: "preserves reads_only (PayerOps_get_payer_raw_objects pid pit pt)"
  unfolding PayerOps_get_payer_raw_objects_def
  by (auto intro!: ro_intros ro_repo ro_new_RawPayer)

lemma ro_Legacy_get: "preserves reads_only (LegacyPayerOps_get_payer_raw_objects pid pit pt)"
  unfolding LegacyPayerOps_get_payer_raw_objects_def
  by (auto intro!: ro_intros ro_repo ro_new_RawPayer)

lemma ro_PayerClient_get: "preserves reads_only (PayerClient_get_payer_raw_objects pid pit pt)"
  unfolding PayerClient_get_payer_raw_objects_def interface_get_payer_raw_objects_def
  by (auto intro!: ro_intros ro_PayerOps_get ro_Legacy_get split: PayerOpsInterface.splits)

lemma ro_get_payment_method:
  "preserves reads_only (get_payment_method pm pid dpm pit pmit)"
  by (simp add: preserves_def get_payment_method_def reads_only_def same_tables_def is_read_def)

subsection \<open>The gateway step of update_payer\<close>

lemma pgp_update_step:
  assumes "pgp_update_customer_default_payment_method cc country cid pm st = (r, st')"
  shows "same_tables st st' \<and>
    ((r = Inl (PayerUpdateError PAYER_UPDATE_STRIPE_ERROR False) \<and> calls st' = calls st) \<or>
     (r = Inl (PayerUpdateError PAYER_UPDATE_STRIPE_ERROR False) \<and>
      calls st' = calls st @ [GatewayCall ''update_customer''] \<and>
      (\<forall>v rest. gw_script st \<noteq> GwOk v # rest)) \<or>
     ((\<exists>v. r = Inr v) \<and> calls st' = calls st @ [GatewayCall ''update_customer''] \<and>
      (\<exists>v rest. gw_script st = GwOk v # rest)))"
  using assms
  by (auto simp: pgp_update_customer_default_payment_method_def io_defs CountryCode_def
      stripe_update_customer_def gateway_call_def Let_def same_tables_def
      split: if_splits list.splits gw_reply.splits)

lemma preservesD: "preserves R m \<Longrightarrow> m st = (r, st') \<Longrightarrow> R st st'"
  by (auto simp: preserves_def dest: spec [of _ st])

lemma update_payer_impl_trace:
  assumes run: "update_payer_impl cc to_payer gpc pm pid dpm country pit pt pmit st = (r, st')"
  shows "\<exists>rs xs. list_all is_read rs \<and>
     ((calls st' = calls st @ rs \<and> same_tables st st' \<and> (\<forall>x. r \<noteq> Inr x)) \<or>
      (calls st' = calls st @ rs @ [GatewayCall ''update_customer''] \<and> same_tables st st' \<and>
       r = Inl (PayerUpdateError PAYER_UPDATE_STRIPE_ERROR False) \<and>
       (\<forall>v rest. gw_script st \<noteq> GwOk v # rest)) \<or>
      (calls st' = calls st @ rs @ GatewayCall ''update_customer'' # xs \<and>
       (\<exists>v rest. gw_script st = GwOk v # rest)))"
proof -
  obtain r1 s1 where g: "PayerClient_get_payer_raw_objects pid pit pt st = (r1, s1)"
    by fastforce
  have ro1: "reads_only st s1"
    using preservesD [OF ro_PayerClient_get g] .
  show ?thesis
  proof (cases r1)
    case (Inl e)
    then have "r = Inl e" "st' = s1"
      using run g by (simp_all add: update_payer_impl_def bind_def)
    then show ?thesis
      using ro1 by (auto simp: reads_only_def)
  next
    case a: (Inr a)
    define s2 where "s2 = s1\<lparr>calls := calls s1 @ [DbRead ''get_payment_method'']\<rparr>"
    have gp: "get_payment_method pm pid dpm pit pmit s1 = (pm, s2)"
      by (simp add: get_payment_method_def s2_def)
    have "reads_only s1 s2"
      using preservesD [OF ro_get_payment_method gp] .
    then have ro2: "reads_only st s2"
      using ro1 reads_only_trans by (auto dest: transpD)
    show ?thesis
    proof (cases pm)
      case (Inl e)
      then have "r = Inl e" "st' = s2"
        using run g a gp by (simp_all add: update_payer_impl_def bind_def)
      then show ?thesis
        using ro2 by (auto simp: reads_only_def)
    next
      case pmv: (Inr entities)
      obtain pm_entity sc_entity where ent: "entities = (pm_entity, sc_entity)"
        by (cases entities)
      show ?thesis
      proof (cases "gpc (objs s2 ! a)")
        case (Inl e)
        then have "r = Inl e" "st' = s2"
          using run g a gp pmv ent
          by (simp_all add: update_payer_impl_def bind_def call_method_def)
        then show ?thesis
          using ro2 by (auto simp: reads_only_def)
      next
        case cid: (Inr cid)
        obtain r4 s4 where u: "pgp_update_customer_default_payment_method cc country cid
            (card_stripe_id sc_entity) s2 = (r4, s4)"
          by fastforce
        note step = pgp_update_step [OF u]
        from ro2 obtain rs where rs: "calls s2 = calls st @ rs" "list_all is_read rs"
          and tb: "same_tables st s2" and gw: "gw_script s2 = gw_script st"
          by (auto simp: reads_only_def)
        have tb4: "same_tables st s4"
          using tb step by (simp add: same_tables_def)
        show ?thesis
        proof (cases r4)
          case (Inl e)
          then have res: "r = Inl e" "st' = s4"
            using run g a gp pmv ent cid u
            by (simp_all add: update_payer_impl_def bind_def call_method_def)
          from step Inl have "(e = PayerUpdateError PAYER_UPDATE_STRIPE_ERROR False \<and>
              calls s4 = calls s2) \<or>
            (e = PayerUpdateError PAYER_UPDATE_STRIPE_ERROR False \<and>
             calls s4 = calls s2 @ [GatewayCall ''update_customer''] \<and>
             (\<forall>v rest. gw_script s2 \<noteq> GwOk v # rest))"
            by auto
          then show ?thesis
            using res rs tb4 gw by auto
        next
          case (Inr v)
          with step have c4: "calls s4 = calls s2 @ [GatewayCall ''update_customer'']"
            and ok: "\<exists>v rest. gw_script s2 = GwOk v # rest"
            by auto
          have tail: "(r, st') = bind (PayerClient_update_payer_default_payment_method a
              (card_stripe_id sc_entity) pid pt pit None) (call_method to_payer) s4"
            using run g a gp pmv ent cid u Inr
            by (simp add: update_payer_impl_def bind_def call_method_def)
          then have "st' = snd (PayerClient_update_payer_default_payment_method a
              (card_stripe_id sc_entity) pid pt pit None s4)"
            by (metis snd_bind_call_method snd_conv)
          then have "calls_extend s4 st'"
            using ext_PayerClient_update by (simp add: preserves_def)
          then obtain xs where "calls st' = calls s4 @ xs"
            by (auto simp: calls_extend_def)
          then have "calls st' = calls st @ rs @ GatewayCall ''update_customer'' # xs"
            using c4 rs by simp
          then show ?thesis
            using rs(2) ok gw by auto
        qed
      qed
    qed
  qed
qed

lemma takeWhile_reads:
  "list_all is_read rs \<Longrightarrow>
   takeWhile (\<lambda>c. \<not> is_gateway c) (rs @ GatewayCall n # xs) = rs"
  by (induction rs) (auto simp: is_read_def is_gateway_def split: call.splits)

lemma reads_no_write: "list_all is_read rs \<Longrightarrow> list_all (\<lambda>c. \<not> is_write c) rs"
  by (induction rs) (auto simp: is_read_def is_write_def split: call.splits)

lemma reads_no_gateway: "list_all is_read rs \<Longrightarrow> \<not> list_ex is_gateway rs"
  by (induction rs) (auto simp: is_read_def is_gateway_def split: call.splits)

lemma wfg_reads: "list_all is_read rs \<Longrightarrow> writes_follow_gateway rs"
proof -
  assume a: "list_all is_read rs"
  have "set (takeWhile (\<lambda>c. \<not> is_gateway c) rs) \<subseteq> set rs"
    by (auto dest: set_takeWhileD)
  then show ?thesis
    using reads_no_write [OF a] by (auto simp: writes_follow_gateway_def list_all_iff)
qed

lemma wfg_reads_gateway:
  "list_all is_read rs \<Longrightarrow> writes_follow_gateway (rs @ GatewayCall n # xs)"
  by (simp add: writes_follow_gateway_def takeWhile_reads reads_no_write)

text \<open>
  C2: in every run of \<^verbatim>\<open>update_payer_impl\<close>, whatever the ledger and the gateway
  do, the calls it adds to the record have no ledger write before the first gateway
  call. When the gateway does not reply with success, the run ends in an error with
  every table as it was, and when the gateway call was issued that error is
  PayerUpdateError(PAYER_UPDATE_STRIPE_ERROR, retryable=False).
\<close>

theorem update_payer_gateway_before_writes:
  "update_payer_impl cc to_payer gpc pm pid dpm country pit pt pmit st = (r, st') \<longrightarrow>
     (\<exists>tr. calls st' = calls st @ tr \<and> writes_follow_gateway tr \<and>
        ((\<forall>v rest. gw_script st \<noteq> GwOk v # rest) \<longrightarrow>
           same_tables st st' \<and> (\<forall>x. r \<noteq> Inr x) \<and>
           (list_ex is_gateway tr \<longrightarrow>
              r = Inl (PayerUpdateError PAYER_UPDATE_STRIPE_ERROR False))))"
proof
  assume run: "update_payer_impl cc to_payer gpc pm pid dpm country pit pt pmit st = (r, st')"
  from update_payer_impl_trace [OF run] obtain rs xs where rd: "list_all is_read rs"
    and cases: "(calls st' = calls st @ rs \<and> same_tables st st' \<and> (\<forall>x. r \<noteq> Inr x)) \<or>
      (calls st' = calls st @ rs @ [GatewayCall ''update_customer''] \<and> same_tables st st' \<and>
       r = Inl (PayerUpdateError PAYER_UPDATE_STRIPE_ERROR False) \<and>
       (\<forall>v rest. gw_script st \<noteq> GwOk v # rest)) \<or>
      (calls st' = calls st @ rs @ GatewayCall ''update_customer'' # xs \<and>
       (\<exists>v rest. gw_script st = GwOk v # rest))"
    by blast
  from cases show "\<exists>tr. calls st' = calls st @ tr \<and> writes_follow_gateway tr \<and>
        ((\<forall>v rest. gw_script st \<noteq> GwOk v # rest) \<longrightarrow>
           same_tables st st' \<and> (\<forall>x. r \<noteq> Inr x) \<and>
           (list_ex is_gateway tr \<longrightarrow>
              r = Inl (PayerUpdateError PAYER_UPDATE_STRIPE_ERROR False)))"
  proof (elim disjE)
    assume c: "calls st' = calls st @ rs \<and> same_tables st st' \<and> (\<forall>x. r \<noteq> Inr x)"
    show ?thesis
      by (rule exI [of _ rs]) (use c rd wfg_reads reads_no_gateway in auto)
  next
    assume c: "calls st' = calls st @ rs @ [GatewayCall ''update_customer''] \<and>
       same_tables st st' \<and> r = Inl (PayerUpdateError PAYER_UPDATE_STRIPE_ERROR False) \<and>
       (\<forall>v rest. gw_script st \<noteq> GwOk v # rest)"
    show ?thesis
      by (rule exI [of _ "rs @ [GatewayCall ''update_customer'']"])
        (use c rd wfg_reads_gateway [of rs "''update_customer''" "[]"] in auto)
  next
    assume c: "calls st' = calls st @ rs @ GatewayCall ''update_customer'' # xs \<and>
       (\<exists>v rest. gw_script st = GwOk v # rest)"
    show ?thesis
      by (rule exI [of _ "rs @ GatewayCall ''update_customer'' # xs"])
        (use c rd wfg_reads_gateway [of rs "''update_customer''" xs] in auto)
  qed
qed

theorem update_payer_gateway_before_writes_witness:
  "fst (update_payer_impl us_only no_payer sample_get_pgp_customer_id (Inr (None, sample_card))
          ''pay_a'' ''pm_1'' ''US'' None None None (current_world\<lparr>gw_script := [GwFail]\<rparr>)) =
     Inl (PayerUpdateError PAYER_UPDATE_STRIPE_ERROR False) \<and>
   same_tables (current_world\<lparr>gw_script := [GwFail]\<rparr>)
     (snd (update_payer_impl us_only no_payer sample_get_pgp_customer_id
             (Inr (None, sample_card)) ''pay_a'' ''pm_1'' ''US'' None None None
             (current_world\<lparr>gw_script := [GwFail]\<rparr>))) \<and>
   calls (snd (update_payer_impl us_only no_payer sample_get_pgp_customer_id
             (Inr (None, sample_card)) ''pay_a'' ''pm_1'' ''US'' None None None
             (current_world\<lparr>gw_script := [GwFail]\<rparr>))) =
     [DbRead ''get_payer_and_pgp_customer_by_id'', DbRead ''get_payment_method'',
      GatewayCall ''update_customer'']"
proof -
  let ?w = "current_world\<lparr>gw_script := [GwFail]\<rparr>"
  let ?run = "update_payer_impl us_only no_payer sample_get_pgp_customer_id
             (Inr (None, sample_card)) ''pay_a'' ''pm_1'' ''US'' None None None ?w"
  have ev: "fst ?run = Inl (PayerUpdateError PAYER_UPDATE_STRIPE_ERROR False)"
    "calls (snd ?run) =
     [DbRead ''get_payer_and_pgp_customer_by_id'', DbRead ''get_payment_method'',
      GatewayCall ''update_customer'']"
    by (simp_all add: update_payer_impl_def PayerClient_get_payer_raw_objects_def
        interface_get_payer_raw_objects_def PayerOps_get_payer_raw_objects_def
        get_payment_method_def call_method_def sample_get_pgp_customer_id_def
        pgp_update_customer_default_payment_method_def CountryCode_def us_only_def
        stripe_update_customer_def gateway_call_def by_id_def payer_matches_def eval_defs)
  have script: "\<forall>v rest. gw_script ?w \<noteq> GwOk v # rest"
    by simp
  have run: "?run = (fst ?run, snd ?run)"
    by simp
  from update_payer_gateway_before_writes [where cc = us_only and to_payer = no_payer
      and gpc = sample_get_pgp_customer_id and pm = "Inr (None, sample_card)"
      and pid = "''pay_a''" and dpm = "''pm_1''" and country = "''US''" and pit = None
      and pt = None and pmit = None and st = ?w
      and r = "fst ?run" and st' = "snd ?run"] run script
  have "same_tables ?w (snd ?run)"
    by blast
  then show ?thesis
    using ev by simp
qed


section \<open>Properties of lazy creation\<close>

lemma set_default_card_keeps [simp]:
  "sc_id (set_default_card i v c) = sc_id c"
  "sc_stripe_id (set_default_card i v c) = sc_stripe_id c"
  "sc_owner_type (set_default_card i v c) = sc_owner_type c"
  by (simp_all add: set_default_card_def)

lemma matches_set_default_card [simp]:
  "stripe_customer_matches q (set_default_card i v c) = stripe_customer_matches q c"
  by (simp add: stripe_customer_matches_def split: GetStripeCustomerInput.splits)












lemma mirror_count_same: "payers st' = payers st \<Longrightarrow> mirror_count sid st' = mirror_count sid st"
  by (simp add: mirror_count_def)








end